theory Spec2Isabelle
  imports Main
begin

section \<open>The form classes of \<open>flask_stormpath/forms.py\<close>\<close>

text \<open>
  The module declares seven form classes on top of a form library. Two things of the
  module are executable code of its own: the class bodies, which build fields and the
  validator lists given to them, and \<open>RegistrationForm.__init__\<close>, which appends
  validators to the lists of the bound fields of one instance.

  The parameter list of \<open>RegistrationForm.__init__\<close> is written
  \<open>config=None **kwargs\<close> in the source. It is read here as \<open>config=None, **kwargs\<close>
  (an optional configuration object beside the form arguments), which is the reading the
  specification fixes; as written, the default value is the power \<open>None ** kwargs\<close> with
  \<open>kwargs\<close> unbound in the class body, and the module cannot be loaded at all.

  The library (wtforms 2, behind flask_wtf) is not part of the module. What the module
  relies on is written out below, each definition marked as the library's: how a declared
  field is bound to an instance, what the three validators check, and how a chain of
  validators is run. The address pattern of the \<open>Email\<close> validator is a parameter,
  \<open>is_email\<close>. The request-forgery token that the library adds to every form is left
  out, and a form is always built from a submission.
\<close>

subsection \<open>Validators and the store of validator lists\<close>

text \<open>
  The three validators the module imports, each with the message it was built with
  (\<open>EqualTo\<close>: the other field's name first).
\<close>

datatype validator =
    InputRequired string
  | Email string
  | EqualTo string string

datatype field_kind = StringField | PasswordField | BooleanField | HiddenField

text \<open>
  A validator list is a Python list object: the class bodies create some, binding a field
  creates others, and the constructor appends to them in place. The store maps references
  to the current contents; \<open>next_ref\<close> is the first reference not yet given out.
\<close>

record heap =
  cells :: "nat \<Rightarrow> validator list"
  next_ref :: nat

definition new_list :: "validator list \<Rightarrow> heap \<Rightarrow> nat \<times> heap" where
  "new_list vs h =
     (next_ref h, h\<lparr>cells := (cells h)(next_ref h := vs), next_ref := Suc (next_ref h)\<rparr>)"

text \<open>\<open>lst.append(v)\<close> on the list object behind reference \<open>r\<close>.\<close>

definition list_append :: "nat \<Rightarrow> validator \<Rightarrow> heap \<Rightarrow> heap" where
  "list_append r v h = h\<lparr>cells := (cells h)(r := cells h r @ [v])\<rparr>"

subsection \<open>The class bodies\<close>

text \<open>
  A field declared in a class body is not bound yet: it records the field class, the label
  and the \<open>validators=\<close> argument, a reference to the list object the class body built
  (\<open>None\<close> when the argument is not given).
\<close>

record unbound_field =
  u_kind :: field_kind
  u_label :: "string option"
  u_validators :: "nat option"

type_synonym form_class = "(string \<times> unbound_field) list"

text \<open>
  Loading the module runs the class bodies in order; each list display
  \<open>validators=[...]\<close> is evaluated once and yields one list object. They get the
  references 0 to 7 in source order.
\<close>

definition module_heap :: heap where
  "module_heap =
     \<lparr>cells = (\<lambda>_. [])
        (0 := [InputRequired ''You must provide an email address.'',
               Email ''You must provide a valid email address.''],
         1 := [InputRequired ''You must supply a password.''],
         2 := [InputRequired ''You have to accept the terms and conditions in order to use the bulletin board.''],
         3 := [InputRequired ''Login identifier required.''],
         4 := [InputRequired ''Password required.''],
         5 := [InputRequired ''Email address required.'',
               Email ''You must provide a valid email address.''],
         6 := [InputRequired ''Password required.''],
         7 := [InputRequired ''Please verify the password.'',
               EqualTo ''password'' ''Passwords do not match.'']),
      next_ref = 8\<rparr>"

definition RegistrationForm :: form_class where
  "RegistrationForm =
     [(''username'', \<lparr>u_kind = StringField, u_label = Some ''Username'', u_validators = None\<rparr>),
      (''given_name'', \<lparr>u_kind = StringField, u_label = Some ''First Name'', u_validators = None\<rparr>),
      (''middle_name'', \<lparr>u_kind = StringField, u_label = Some ''Middle Name'', u_validators = None\<rparr>),
      (''surname'', \<lparr>u_kind = StringField, u_label = Some ''Last Name'', u_validators = None\<rparr>),
      (''email'', \<lparr>u_kind = StringField, u_label = Some ''Email'', u_validators = Some 0\<rparr>),
      (''password'', \<lparr>u_kind = PasswordField, u_label = Some ''Password'', u_validators = Some 1\<rparr>)]"

text \<open>A subclass has the fields of its base class and then its own.\<close>

definition AcceptTermsRegistrationForm :: form_class where
  "AcceptTermsRegistrationForm =
     RegistrationForm @
     [(''accept'', \<lparr>u_kind = BooleanField, u_label = None, u_validators = Some 2\<rparr>)]"

definition LoginForm :: form_class where
  "LoginForm =
     [(''login'', \<lparr>u_kind = StringField, u_label = Some ''Login'', u_validators = Some 3\<rparr>),
      (''password'', \<lparr>u_kind = PasswordField, u_label = Some ''Password'', u_validators = Some 4\<rparr>)]"

definition ForgotPasswordForm :: form_class where
  "ForgotPasswordForm =
     [(''email'', \<lparr>u_kind = StringField, u_label = Some ''Email'', u_validators = Some 5\<rparr>)]"

definition ChangePasswordForm :: form_class where
  "ChangePasswordForm =
     [(''password'', \<lparr>u_kind = PasswordField, u_label = Some ''Password'', u_validators = Some 6\<rparr>),
      (''password_again'',
         \<lparr>u_kind = PasswordField, u_label = Some ''Password (again)'', u_validators = Some 7\<rparr>)]"

definition ChangePasswordFormHref :: form_class where
  "ChangePasswordFormHref =
     ChangePasswordForm @
     [(''href'', \<lparr>u_kind = HiddenField, u_label = Some ''Href'', u_validators = None\<rparr>)]"

definition ResendVerificationForm :: form_class where
  "ResendVerificationForm =
     [(''username'', \<lparr>u_kind = HiddenField, u_label = Some ''Username'', u_validators = None\<rparr>)]"

text \<open>
  A store in which the module has been loaded and the lists of the class bodies still hold
  what the class bodies put there.
\<close>

definition module_loaded :: "heap \<Rightarrow> bool" where
  "module_loaded h =
     (8 \<le> next_ref h \<and>
      cells h 0 = cells module_heap 0 \<and> cells h 1 = cells module_heap 1 \<and>
      cells h 2 = cells module_heap 2 \<and> cells h 3 = cells module_heap 3 \<and>
      cells h 4 = cells module_heap 4 \<and> cells h 5 = cells module_heap 5 \<and>
      cells h 6 = cells module_heap 6 \<and> cells h 7 = cells module_heap 7)"

subsection \<open>Binding fields to an instance (library)\<close>

text \<open>
  A bound field of one form instance: its kind, the reference of its validator list, and
  the values submitted under its name.
\<close>

record field =
  kind :: field_kind
  validators :: nat
  raw_data :: "string list"

type_synonym form = "(string \<times> field) list"

text \<open>The submitted data, read by name as the list of the values sent under that name.\<close>

type_synonym formdata = "string \<Rightarrow> string list"

text \<open>
  Library: the field constructor sets \<open>self.validators = validators or list(self.validators)\<close>,
  the class attribute being the empty tuple. A non-empty list given in the class body is
  kept as it is, the same object for every instance; otherwise the field gets a new empty
  list of its own.
\<close>

definition bind_validators :: "nat option \<Rightarrow> heap \<Rightarrow> nat \<times> heap" where
  "bind_validators declared h =
     (case declared of
        None \<Rightarrow> new_list [] h
      | Some r \<Rightarrow> if cells h r \<noteq> [] then (r, h) else new_list [] h)"

text \<open>Library: the form constructor binds the declared fields in order and hands each its data.\<close>

fun bind_fields :: "form_class \<Rightarrow> formdata \<Rightarrow> heap \<Rightarrow> form \<times> heap" where
  "bind_fields [] fd h = ([], h)"
| "bind_fields ((n, u) # us) fd h =
     (let (r, h1) = bind_validators (u_validators u) h;
          (fs, h2) = bind_fields us fd h1
      in ((n, \<lparr>kind = u_kind u, validators = r, raw_data = fd n\<rparr>) # fs, h2))"

definition FlaskForm_init :: "form_class \<Rightarrow> formdata \<Rightarrow> heap \<Rightarrow> form \<times> heap" where
  "FlaskForm_init cls fd h = bind_fields cls fd h"

subsection \<open>The configuration object\<close>

text \<open>
  \<open>config\<close> is any Python object. The constructor tests its truth value and subscripts
  it with string keys; the values found are tested for their truth value.
\<close>

datatype pyval =
    PNone
  | PBool bool
  | PInt int
  | PStr string
  | PDict "(string \<times> pyval) list"

fun truthy :: "pyval \<Rightarrow> bool" where
  "truthy PNone = False"
| "truthy (PBool b) = b"
| "truthy (PInt i) = (i \<noteq> 0)"
| "truthy (PStr s) = (s \<noteq> [])"
| "truthy (PDict kvs) = (kvs \<noteq> [])"

datatype error = KeyError string | TypeError | AttributeError string

text \<open>\<open>config[k]\<close> with a string key: only a mapping can be subscripted that way.\<close>

fun getitem :: "pyval \<Rightarrow> string \<Rightarrow> error + pyval" where
  "getitem (PDict kvs) k = (case map_of kvs k of None \<Rightarrow> Inl (KeyError k) | Some v \<Rightarrow> Inr v)"
| "getitem PNone k = Inl TypeError"
| "getitem (PBool b) k = Inl TypeError"
| "getitem (PInt i) k = Inl TypeError"
| "getitem (PStr s) k = Inl TypeError"

subsection \<open>\<open>RegistrationForm.__init__\<close>\<close>

text \<open>
  One statement of the constructor,
  \<open>if config[en] and config[rq]: self.<n>.validators.append(InputRequired(msg))\<close>.
  \<open>and\<close> evaluates its right operand only when the left one is true.
\<close>

definition require_if_configured ::
  "pyval \<Rightarrow> string \<Rightarrow> string \<Rightarrow> form \<Rightarrow> string \<Rightarrow> string \<Rightarrow> heap \<Rightarrow> error + heap" where
  "require_if_configured config en rq self n msg h =
     (case getitem config en of
        Inl e \<Rightarrow> Inl e
      | Inr a \<Rightarrow>
          if truthy a then
            (case getitem config rq of
               Inl e \<Rightarrow> Inl e
             | Inr b \<Rightarrow>
                 if truthy b then
                   (case map_of self n of
                      None \<Rightarrow> Inl (AttributeError n)
                    | Some f \<Rightarrow> Inr (list_append (validators f) (InputRequired msg) h))
                 else Inr h)
          else Inr h)"

text \<open>Statements run in order; the first one that raises ends the run, the store as it is then.\<close>

fun run_statements :: "(heap \<Rightarrow> error + heap) list \<Rightarrow> heap \<Rightarrow> error option \<times> heap" where
  "run_statements [] h = (None, h)"
| "run_statements (s # ss) h =
     (case s h of Inl e \<Rightarrow> (Some e, h) | Inr h' \<Rightarrow> run_statements ss h')"

text \<open>
  The constructor, for the class \<open>cls\<close> being instantiated (\<open>RegistrationForm\<close> or a
  subclass, which inherits it). It returns the instance, or the error raised, and the store.
\<close>

definition RegistrationForm_init ::
  "form_class \<Rightarrow> formdata \<Rightarrow> pyval \<Rightarrow> heap \<Rightarrow> (error + form) \<times> heap" where
  "RegistrationForm_init cls formdata config h =
     (let (self, h0) = FlaskForm_init cls formdata h in
      if truthy config then
        (case run_statements
           [require_if_configured config
              ''STORMPATH_ENABLE_USERNAME'' ''STORMPATH_REQUIRE_USERNAME''
              self ''username'' ''Username is required.'',
            require_if_configured config
              ''STORMPATH_ENABLE_GIVEN_NAME'' ''STORMPATH_REQUIRE_GIVEN_NAME''
              self ''given_name'' ''First name is required.'',
            require_if_configured config
              ''STORMPATH_ENABLE_MIDDLE_NAME'' ''STORMPATH_REQUIRE_MIDDLE_NAME''
              self ''middle_name'' ''Middle name is required.'',
            require_if_configured config
              ''STORMPATH_ENABLE_SURNAME'' ''STORMPATH_REQUIRE_SURNAME''
              self ''surname'' ''Surname is required.''] h0 of
           (Some e, h1) \<Rightarrow> (Inl e, h1)
         | (None, h1) \<Rightarrow> (Inr self, h1))
      else (Inr self, h0))"

subsection \<open>Validation (library)\<close>

text \<open>
  Library: the value a field holds after processing its submitted data. A text field takes
  the first value sent, or the empty string; a Boolean field is false when nothing was sent
  or the first value is one of the false values.
\<close>

datatype field_data = DStr string | DBool bool

definition data :: "field \<Rightarrow> field_data" where
  "data f =
     (case kind f of
        BooleanField \<Rightarrow>
          DBool (raw_data f \<noteq> [] \<and> hd (raw_data f) \<noteq> ''false'' \<and> hd (raw_data f) \<noteq> [])
      | _ \<Rightarrow> DStr (case raw_data f of [] \<Rightarrow> [] | x # _ \<Rightarrow> x))"

definition invalid_field_name :: "string \<Rightarrow> string" where
  "invalid_field_name n = ''Invalid field name '' @ [CHR 0x27] @ n @ [CHR 0x27] @ ''.''"

text \<open>
  Library: running the validators of one field in order, collecting messages.
  \<^item> \<open>InputRequired\<close> looks at the submitted input, not at the processed value: it passes
    when a first value was sent and is not empty. Otherwise it clears the messages so
    far, stops the chain, and its message is recorded when not empty.
  \<^item> \<open>Email\<close> checks the field's value against the library's pattern for addresses, which
    is the parameter \<open>is_email\<close>; on failure its message is added and the chain goes on.
    (No Boolean field carries it in this module.)
  \<^item> \<open>EqualTo\<close> compares the field's value with that of the named field of the same form;
    a name the form does not have is a failure with the library's own message.
\<close>

fun run_validation_chain ::
  "(string \<Rightarrow> bool) \<Rightarrow> form \<Rightarrow> field \<Rightarrow> validator list \<Rightarrow> string list \<Rightarrow> string list" where
  "run_validation_chain is_email frm f [] errs = errs"
| "run_validation_chain is_email frm f (InputRequired m # vs) errs =
     (if raw_data f \<noteq> [] \<and> hd (raw_data f) \<noteq> []
      then run_validation_chain is_email frm f vs errs
      else (if m \<noteq> [] then [m] else []))"
| "run_validation_chain is_email frm f (Email m # vs) errs =
     (case data f of
        DStr s \<Rightarrow>
          if is_email s then run_validation_chain is_email frm f vs errs
          else run_validation_chain is_email frm f vs (errs @ [m])
      | DBool b \<Rightarrow> run_validation_chain is_email frm f vs (errs @ [m]))"
| "run_validation_chain is_email frm f (EqualTo other m # vs) errs =
     (case map_of frm other of
        None \<Rightarrow> run_validation_chain is_email frm f vs (errs @ [invalid_field_name other])
      | Some g \<Rightarrow>
          if data f \<noteq> data g then run_validation_chain is_email frm f vs (errs @ [m])
          else run_validation_chain is_email frm f vs errs)"

text \<open>The validator list of a bound field, as the store has it now.\<close>

definition field_validators :: "heap \<Rightarrow> field \<Rightarrow> validator list" where
  "field_validators h f = cells h (validators f)"

definition field_errors :: "(string \<Rightarrow> bool) \<Rightarrow> heap \<Rightarrow> form \<Rightarrow> field \<Rightarrow> string list" where
  "field_errors is_email h frm f = run_validation_chain is_email frm f (field_validators h f) []"

text \<open>
  Library: \<open>form.validate()\<close> validates every field and succeeds when none has a message;
  \<open>form.errors\<close> lists the fields that have messages.
\<close>

definition validate :: "(string \<Rightarrow> bool) \<Rightarrow> heap \<Rightarrow> form \<Rightarrow> bool" where
  "validate is_email h frm = list_all (\<lambda>(n, f). field_errors is_email h frm f = []) frm"

definition errors :: "(string \<Rightarrow> bool) \<Rightarrow> heap \<Rightarrow> form \<Rightarrow> (string \<times> string list) list" where
  "errors is_email h frm =
     filter (\<lambda>(n, es). es \<noteq> []) (map (\<lambda>(n, f). (n, field_errors is_email h frm f)) frm)"

text \<open>Attribute access \<open>form.<name>\<close> read through to the field's validator list and messages.\<close>

definition validators_of :: "heap \<Rightarrow> form \<Rightarrow> string \<Rightarrow> validator list option" where
  "validators_of h frm n = map_option (field_validators h) (map_of frm n)"

definition errors_of :: "(string \<Rightarrow> bool) \<Rightarrow> heap \<Rightarrow> form \<Rightarrow> string \<Rightarrow> string list option" where
  "errors_of is_email h frm n = map_option (field_errors is_email h frm) (map_of frm n)"

subsection \<open>Instantiating the classes\<close>

text \<open>
  A request handler instantiates one of the seven classes. Only the two registration
  classes have a constructor of their own; the other five use the library's.
\<close>

datatype form_request =
    New_RegistrationForm formdata pyval
  | New_AcceptTermsRegistrationForm formdata pyval
  | New_LoginForm formdata
  | New_ForgotPasswordForm formdata
  | New_ChangePasswordForm formdata
  | New_ChangePasswordFormHref formdata
  | New_ResendVerificationForm formdata

definition plain_init :: "form_class \<Rightarrow> formdata \<Rightarrow> heap \<Rightarrow> (error + form) \<times> heap" where
  "plain_init cls fd h = (let (self, h') = FlaskForm_init cls fd h in (Inr self, h'))"

fun instantiate :: "form_request \<Rightarrow> heap \<Rightarrow> (error + form) \<times> heap" where
  "instantiate (New_RegistrationForm fd config) h =
     RegistrationForm_init RegistrationForm fd config h"
| "instantiate (New_AcceptTermsRegistrationForm fd config) h =
     RegistrationForm_init AcceptTermsRegistrationForm fd config h"
| "instantiate (New_LoginForm fd) h = plain_init LoginForm fd h"
| "instantiate (New_ForgotPasswordForm fd) h = plain_init ForgotPasswordForm fd h"
| "instantiate (New_ChangePasswordForm fd) h = plain_init ChangePasswordForm fd h"
| "instantiate (New_ChangePasswordFormHref fd) h = plain_init ChangePasswordFormHref fd h"
| "instantiate (New_ResendVerificationForm fd) h = plain_init ResendVerificationForm fd h"

text \<open>A run of instantiations, one after the other, whether each returns or raises.\<close>

fun instantiate_all :: "form_request list \<Rightarrow> heap \<Rightarrow> heap" where
  "instantiate_all [] h = h"
| "instantiate_all (i # rest) h = instantiate_all rest (snd (instantiate i h))"

subsection \<open>Vocabulary of the properties\<close>

text \<open>
  The configuration marks a field enabled and required: both flags can be read and both
  are true.
\<close>

definition marked_required :: "pyval \<Rightarrow> string \<Rightarrow> string \<Rightarrow> bool" where
  "marked_required config en rq =
     (case getitem config en of
        Inl e \<Rightarrow> False
      | Inr a \<Rightarrow> truthy a \<and> (case getitem config rq of Inl e \<Rightarrow> False | Inr b \<Rightarrow> truthy b))"

text \<open>
  The flags of one field can be read as the constructor reads them: the enable flag is
  there, and the require flag is there when the enable flag is true.
\<close>

definition flags_readable :: "pyval \<Rightarrow> string \<Rightarrow> string \<Rightarrow> bool" where
  "flags_readable config en rq =
     (case getitem config en of
        Inl e \<Rightarrow> False
      | Inr a \<Rightarrow>
          if truthy a then (case getitem config rq of Inl e \<Rightarrow> False | Inr b \<Rightarrow> True)
          else True)"

definition all_flags_readable :: "pyval \<Rightarrow> bool" where
  "all_flags_readable config =
     (flags_readable config ''STORMPATH_ENABLE_USERNAME'' ''STORMPATH_REQUIRE_USERNAME'' \<and>
      flags_readable config ''STORMPATH_ENABLE_GIVEN_NAME'' ''STORMPATH_REQUIRE_GIVEN_NAME'' \<and>
      flags_readable config ''STORMPATH_ENABLE_MIDDLE_NAME'' ''STORMPATH_REQUIRE_MIDDLE_NAME'' \<and>
      flags_readable config ''STORMPATH_ENABLE_SURNAME'' ''STORMPATH_REQUIRE_SURNAME'')"

text \<open>The error that reading the flags of one field raises, when they cannot be read.\<close>

definition flag_error :: "pyval \<Rightarrow> string \<Rightarrow> string \<Rightarrow> error" where
  "flag_error config en rq =
     (case getitem config en of
        Inl e \<Rightarrow> e
      | Inr a \<Rightarrow> (case getitem config rq of Inl e \<Rightarrow> e | Inr b \<Rightarrow> TypeError))"

text \<open>What the constructor appends to the list of one optional field.\<close>

definition appended :: "pyval \<Rightarrow> string \<Rightarrow> string \<Rightarrow> string \<Rightarrow> validator list" where
  "appended config en rq msg =
     (if marked_required config en rq then [InputRequired msg] else [])"

text \<open>A value was submitted under the name and its first value is not empty.\<close>

definition present :: "formdata \<Rightarrow> string \<Rightarrow> bool" where
  "present fd n = (fd n \<noteq> [] \<and> hd (fd n) \<noteq> [])"

text \<open>
  A stand-in for the library's address pattern in the closed examples: something, an
  \<open>@\<close>, something.
\<close>

definition sample_is_email :: "string \<Rightarrow> bool" where
  "sample_is_email s =
     (CHR ''@'' \<in> set s \<and> hd s \<noteq> CHR ''@'' \<and> last s \<noteq> CHR ''@'')"

text \<open>A configuration with all eight flags, every optional field enabled and required.\<close>

definition all_required_config :: pyval where
  "all_required_config =
     PDict [(''STORMPATH_ENABLE_USERNAME'', PBool True),
            (''STORMPATH_REQUIRE_USERNAME'', PBool True),
            (''STORMPATH_ENABLE_GIVEN_NAME'', PBool True),
            (''STORMPATH_REQUIRE_GIVEN_NAME'', PBool True),
            (''STORMPATH_ENABLE_MIDDLE_NAME'', PBool True),
            (''STORMPATH_REQUIRE_MIDDLE_NAME'', PBool True),
            (''STORMPATH_ENABLE_SURNAME'', PBool True),
            (''STORMPATH_REQUIRE_SURNAME'', PBool True)]"

text \<open>A configuration that disables every optional field and has no require flag at all.\<close>

definition all_disabled_config :: pyval where
  "all_disabled_config =
     PDict [(''STORMPATH_ENABLE_USERNAME'', PBool False),
            (''STORMPATH_ENABLE_GIVEN_NAME'', PBool False),
            (''STORMPATH_ENABLE_MIDDLE_NAME'', PBool False),
            (''STORMPATH_ENABLE_SURNAME'', PBool False)]"

text \<open>
  The four optional fields as the constructor treats them: field name, enable key, require
  key, message.
\<close>

definition optional_fields :: "(string \<times> string \<times> string \<times> string) list" where
  "optional_fields =
     [(''username'', ''STORMPATH_ENABLE_USERNAME'', ''STORMPATH_REQUIRE_USERNAME'',
         ''Username is required.''),
      (''given_name'', ''STORMPATH_ENABLE_GIVEN_NAME'', ''STORMPATH_REQUIRE_GIVEN_NAME'',
         ''First name is required.''),
      (''middle_name'', ''STORMPATH_ENABLE_MIDDLE_NAME'', ''STORMPATH_REQUIRE_MIDDLE_NAME'',
         ''Middle name is required.''),
      (''surname'', ''STORMPATH_ENABLE_SURNAME'', ''STORMPATH_REQUIRE_SURNAME'',
         ''Surname is required.'')]"

text \<open>A mapping that enables the username and says nothing else.\<close>

definition username_enabled_only_config :: pyval where
  "username_enabled_only_config = PDict [(''STORMPATH_ENABLE_USERNAME'', PBool True)]"

text \<open>A submission that accepts the terms and gives an address and a password.\<close>

definition terms_submission :: formdata where
  "terms_submission =
     (\<lambda>n. [])(''accept'' := [''y''], ''email'' := [''user@example.com''],
              ''password'' := [''secret''])"

text \<open>
  From one store to a later one, every list that existed keeps its contents (new lists
  may have been created).
\<close>

definition keeps_lists :: "heap \<Rightarrow> heap \<Rightarrow> bool" where
  "keeps_lists h h' = (next_ref h \<le> next_ref h' \<and> (\<forall>r<next_ref h. cells h' r = cells h r))"

text \<open>
  Every validator list of the instance is a list of the class bodies (references below 8)
  or was created at or after the given reference.
\<close>

definition own_or_class_lists :: "nat \<Rightarrow> form \<Rightarrow> bool" where
  "own_or_class_lists r frm = list_all (\<lambda>(n, f). validators f < 8 \<or> r \<le> validators f) frm"

text \<open>Every validator list of the instance exists in the store.\<close>

definition lists_exist :: "heap \<Rightarrow> form \<Rightarrow> bool" where
  "lists_exist h frm = list_all (\<lambda>(n, f). validators f < next_ref h) frm"

section \<open>Auxiliary facts\<close>

subsection \<open>The store after loading and binding\<close>

lemma module_heap_cells:
  "cells module_heap 0 = [InputRequired ''You must provide an email address.'', Email ''You must provide a valid email address.'']"
  "cells module_heap (Suc 0) = [InputRequired ''You must supply a password.'']"
  "cells module_heap 2 = [InputRequired ''You have to accept the terms and conditions in order to use the bulletin board.'']"
  "cells module_heap 3 = [InputRequired ''Login identifier required.'']"
  "cells module_heap 4 = [InputRequired ''Password required.'']"
  "cells module_heap 5 = [InputRequired ''Email address required.'', Email ''You must provide a valid email address.'']"
  "cells module_heap 6 = [InputRequired ''Password required.'']"
  "cells module_heap 7 = [InputRequired ''Please verify the password.'', EqualTo ''password'' ''Passwords do not match.'']"
  "next_ref module_heap = 8"
  by (simp_all add: module_heap_def)

lemma module_loaded_module_heap: "module_loaded module_heap"
  by (simp add: module_loaded_def module_heap_cells)

lemma module_loaded_frame:
  assumes "module_loaded h" and "next_ref h \<le> next_ref h'"
    and "\<And>a. a < next_ref h \<Longrightarrow> cells h' a = cells h a"
  shows "module_loaded h'"
  using assms by (simp add: module_loaded_def)

lemma loaded_cells:
  assumes "module_loaded h"
  shows "cells h 0 = [InputRequired ''You must provide an email address.'', Email ''You must provide a valid email address.'']"
    and "cells h (Suc 0) = [InputRequired ''You must supply a password.'']"
    and "cells h 2 = [InputRequired ''You have to accept the terms and conditions in order to use the bulletin board.'']"
    and "cells h 3 = [InputRequired ''Login identifier required.'']"
    and "cells h 4 = [InputRequired ''Password required.'']"
    and "cells h 5 = [InputRequired ''Email address required.'', Email ''You must provide a valid email address.'']"
    and "cells h 6 = [InputRequired ''Password required.'']"
    and "cells h 7 = [InputRequired ''Please verify the password.'', EqualTo ''password'' ''Passwords do not match.'']"
    and "8 \<le> next_ref h"
  using assms by (simp_all add: module_loaded_def module_heap_cells)

lemma bind_RegistrationForm:
  assumes "module_loaded h"
  shows "FlaskForm_init RegistrationForm fd h =
    ([(''username'', \<lparr>kind = StringField, validators = next_ref h, raw_data = fd ''username''\<rparr>),
      (''given_name'', \<lparr>kind = StringField, validators = Suc (next_ref h), raw_data = fd ''given_name''\<rparr>),
      (''middle_name'', \<lparr>kind = StringField, validators = Suc (Suc (next_ref h)), raw_data = fd ''middle_name''\<rparr>),
      (''surname'', \<lparr>kind = StringField, validators = Suc (Suc (Suc (next_ref h))), raw_data = fd ''surname''\<rparr>),
      (''email'', \<lparr>kind = StringField, validators = 0, raw_data = fd ''email''\<rparr>),
      (''password'', \<lparr>kind = PasswordField, validators = Suc 0, raw_data = fd ''password''\<rparr>)],
     h\<lparr>cells := (cells h)(next_ref h := [], Suc (next_ref h) := [], Suc (Suc (next_ref h)) := [], Suc (Suc (Suc (next_ref h))) := []),
       next_ref := Suc (Suc (Suc (Suc (next_ref h))))\<rparr>)"
  using assms
  by (simp add: FlaskForm_init_def RegistrationForm_def bind_validators_def new_list_def
      module_loaded_def module_heap_cells)

lemma bind_AcceptTermsRegistrationForm:
  assumes "module_loaded h"
  shows "FlaskForm_init AcceptTermsRegistrationForm fd h =
    ([(''username'', \<lparr>kind = StringField, validators = next_ref h, raw_data = fd ''username''\<rparr>),
      (''given_name'', \<lparr>kind = StringField, validators = Suc (next_ref h), raw_data = fd ''given_name''\<rparr>),
      (''middle_name'', \<lparr>kind = StringField, validators = Suc (Suc (next_ref h)), raw_data = fd ''middle_name''\<rparr>),
      (''surname'', \<lparr>kind = StringField, validators = Suc (Suc (Suc (next_ref h))), raw_data = fd ''surname''\<rparr>),
      (''email'', \<lparr>kind = StringField, validators = 0, raw_data = fd ''email''\<rparr>),
      (''password'', \<lparr>kind = PasswordField, validators = Suc 0, raw_data = fd ''password''\<rparr>),
      (''accept'', \<lparr>kind = BooleanField, validators = 2, raw_data = fd ''accept''\<rparr>)],
     h\<lparr>cells := (cells h)(next_ref h := [], Suc (next_ref h) := [], Suc (Suc (next_ref h)) := [], Suc (Suc (Suc (next_ref h))) := []),
       next_ref := Suc (Suc (Suc (Suc (next_ref h))))\<rparr>)"
  using assms
  by (simp add: FlaskForm_init_def AcceptTermsRegistrationForm_def RegistrationForm_def
      bind_validators_def new_list_def module_loaded_def module_heap_cells)

lemma bind_LoginForm:
  assumes "module_loaded h"
  shows "FlaskForm_init LoginForm fd h =
    ([(''login'', \<lparr>kind = StringField, validators = 3, raw_data = fd ''login''\<rparr>),
      (''password'', \<lparr>kind = PasswordField, validators = 4, raw_data = fd ''password''\<rparr>)],
     h)"
  using assms
  by (simp add: FlaskForm_init_def LoginForm_def bind_validators_def
      module_loaded_def module_heap_cells)

lemma bind_ForgotPasswordForm:
  assumes "module_loaded h"
  shows "FlaskForm_init ForgotPasswordForm fd h =
    ([(''email'', \<lparr>kind = StringField, validators = 5, raw_data = fd ''email''\<rparr>)], h)"
  using assms
  by (simp add: FlaskForm_init_def ForgotPasswordForm_def bind_validators_def
      module_loaded_def module_heap_cells)

lemma bind_ChangePasswordForm:
  assumes "module_loaded h"
  shows "FlaskForm_init ChangePasswordForm fd h =
    ([(''password'', \<lparr>kind = PasswordField, validators = 6, raw_data = fd ''password''\<rparr>),
      (''password_again'', \<lparr>kind = PasswordField, validators = 7, raw_data = fd ''password_again''\<rparr>)],
     h)"
  using assms
  by (simp add: FlaskForm_init_def ChangePasswordForm_def bind_validators_def
      module_loaded_def module_heap_cells)

lemma bind_ChangePasswordFormHref:
  assumes "module_loaded h"
  shows "FlaskForm_init ChangePasswordFormHref fd h =
    ([(''password'', \<lparr>kind = PasswordField, validators = 6, raw_data = fd ''password''\<rparr>),
      (''password_again'', \<lparr>kind = PasswordField, validators = 7, raw_data = fd ''password_again''\<rparr>),
      (''href'', \<lparr>kind = HiddenField, validators = next_ref h, raw_data = fd ''href''\<rparr>)],
     h\<lparr>cells := (cells h)(next_ref h := []), next_ref := Suc (next_ref h)\<rparr>)"
  using assms
  by (simp add: FlaskForm_init_def ChangePasswordFormHref_def ChangePasswordForm_def
      bind_validators_def new_list_def module_loaded_def module_heap_cells)

lemma bind_ResendVerificationForm:
  "FlaskForm_init ResendVerificationForm fd h =
    ([(''username'', \<lparr>kind = HiddenField, validators = next_ref h, raw_data = fd ''username''\<rparr>)],
     h\<lparr>cells := (cells h)(next_ref h := []), next_ref := Suc (next_ref h)\<rparr>)"
  by (simp add: FlaskForm_init_def ResendVerificationForm_def bind_validators_def new_list_def)

subsection \<open>The statements of the constructor\<close>

lemma require_if_configured_eq:
  assumes "map_of self n = Some f"
  shows "require_if_configured config en rq self n msg h =
     (if flags_readable config en rq then
        Inr (h\<lparr>cells := (cells h)(validators f := cells h (validators f) @ appended config en rq msg)\<rparr>)
      else Inl (flag_error config en rq))"
  using assms
  by (simp add: require_if_configured_def flags_readable_def marked_required_def flag_error_def
      list_append_def appended_def split: sum.splits)

lemma run_four:
  assumes f: "map_of self ''username'' = Some f1" "map_of self ''given_name'' = Some f2"
      "map_of self ''middle_name'' = Some f3" "map_of self ''surname'' = Some f4"
    and r: "validators f1 = n" "validators f2 = Suc n" "validators f3 = Suc (Suc n)"
      "validators f4 = Suc (Suc (Suc n))"
    and run: "run_statements
           [require_if_configured config
              ''STORMPATH_ENABLE_USERNAME'' ''STORMPATH_REQUIRE_USERNAME''
              self ''username'' ''Username is required.'',
            require_if_configured config
              ''STORMPATH_ENABLE_GIVEN_NAME'' ''STORMPATH_REQUIRE_GIVEN_NAME''
              self ''given_name'' ''First name is required.'',
            require_if_configured config
              ''STORMPATH_ENABLE_MIDDLE_NAME'' ''STORMPATH_REQUIRE_MIDDLE_NAME''
              self ''middle_name'' ''Middle name is required.'',
            require_if_configured config
              ''STORMPATH_ENABLE_SURNAME'' ''STORMPATH_REQUIRE_SURNAME''
              self ''surname'' ''Surname is required.''] h0 = (r, h')"
  shows "next_ref h' = next_ref h0"
    and "a \<notin> {n, Suc n, Suc (Suc n), Suc (Suc (Suc n))} \<Longrightarrow> cells h' a = cells h0 a"
    and "(r = None) = all_flags_readable config"
    and "r = None \<Longrightarrow> cells h' n = cells h0 n @
           appended config ''STORMPATH_ENABLE_USERNAME'' ''STORMPATH_REQUIRE_USERNAME'' ''Username is required.''"
    and "r = None \<Longrightarrow> cells h' (Suc n) = cells h0 (Suc n) @
           appended config ''STORMPATH_ENABLE_GIVEN_NAME'' ''STORMPATH_REQUIRE_GIVEN_NAME'' ''First name is required.''"
    and "r = None \<Longrightarrow> cells h' (Suc (Suc n)) = cells h0 (Suc (Suc n)) @
           appended config ''STORMPATH_ENABLE_MIDDLE_NAME'' ''STORMPATH_REQUIRE_MIDDLE_NAME'' ''Middle name is required.''"
    and "r = None \<Longrightarrow> cells h' (Suc (Suc (Suc n))) = cells h0 (Suc (Suc (Suc n))) @
           appended config ''STORMPATH_ENABLE_SURNAME'' ''STORMPATH_REQUIRE_SURNAME'' ''Surname is required.''"
  using run
  by (auto simp: require_if_configured_eq [OF f(1)] require_if_configured_eq [OF f(2)]
      require_if_configured_eq [OF f(3)] require_if_configured_eq [OF f(4)] r all_flags_readable_def
      split: if_splits)

lemma run_four_error:
  assumes f: "map_of self ''username'' = Some f1" "map_of self ''given_name'' = Some f2"
      "map_of self ''middle_name'' = Some f3" "map_of self ''surname'' = Some f4"
    and run: "run_statements
           [require_if_configured config
              ''STORMPATH_ENABLE_USERNAME'' ''STORMPATH_REQUIRE_USERNAME''
              self ''username'' ''Username is required.'',
            require_if_configured config
              ''STORMPATH_ENABLE_GIVEN_NAME'' ''STORMPATH_REQUIRE_GIVEN_NAME''
              self ''given_name'' ''First name is required.'',
            require_if_configured config
              ''STORMPATH_ENABLE_MIDDLE_NAME'' ''STORMPATH_REQUIRE_MIDDLE_NAME''
              self ''middle_name'' ''Middle name is required.'',
            require_if_configured config
              ''STORMPATH_ENABLE_SURNAME'' ''STORMPATH_REQUIRE_SURNAME''
              self ''surname'' ''Surname is required.''] h0 = (Some e, h')"
  shows "\<exists>en rq. \<not> flags_readable config en rq \<and> e = flag_error config en rq"
  using run
  by (auto simp: require_if_configured_eq [OF f(1)] require_if_configured_eq [OF f(2)]
      require_if_configured_eq [OF f(3)] require_if_configured_eq [OF f(4)]
      split: if_splits)

lemma flag_error_dict:
  assumes "\<not> flags_readable (PDict kvs) en rq"
  shows "\<exists>k. flag_error (PDict kvs) en rq = KeyError k \<and> map_of kvs k = None"
  using assms
  by (auto simp: flags_readable_def flag_error_def split: option.splits if_splits)

lemma falsy_PNone: "\<not> truthy PNone"
  by simp

lemma falsy_not_marked: "\<not> truthy config \<Longrightarrow> appended config en rq msg = []"
  by (cases config) (simp_all add: appended_def marked_required_def)

lemma falsy_not_required: "\<not> truthy config \<Longrightarrow> \<not> marked_required config en rq"
  by (cases config) (simp_all add: marked_required_def)

lemma all_required_config_flags:
  "truthy all_required_config"
  "all_flags_readable all_required_config"
  "marked_required all_required_config ''STORMPATH_ENABLE_USERNAME'' ''STORMPATH_REQUIRE_USERNAME''"
  "marked_required all_required_config ''STORMPATH_ENABLE_GIVEN_NAME'' ''STORMPATH_REQUIRE_GIVEN_NAME''"
  "marked_required all_required_config ''STORMPATH_ENABLE_MIDDLE_NAME'' ''STORMPATH_REQUIRE_MIDDLE_NAME''"
  "marked_required all_required_config ''STORMPATH_ENABLE_SURNAME'' ''STORMPATH_REQUIRE_SURNAME''"
  by (simp_all add: all_required_config_def all_flags_readable_def flags_readable_def
      marked_required_def)

lemma all_disabled_config_flags:
  "truthy all_disabled_config"
  "all_flags_readable all_disabled_config"
  "getitem all_disabled_config ''STORMPATH_REQUIRE_USERNAME'' = Inl (KeyError ''STORMPATH_REQUIRE_USERNAME'')"
  "getitem all_disabled_config ''STORMPATH_ENABLE_USERNAME'' = Inr (PBool False)"
  by (simp_all add: all_disabled_config_def all_flags_readable_def flags_readable_def)

text \<open>The constructor on either registration class, in a store where the module is loaded.\<close>

lemma registration_init:
  assumes h: "module_loaded h"
    and cls: "cls = RegistrationForm \<or> cls = AcceptTermsRegistrationForm"
    and init: "RegistrationForm_init cls fd config h = (res, h')"
  shows "next_ref h' = Suc (Suc (Suc (Suc (next_ref h))))"
    and "a < next_ref h \<Longrightarrow> cells h' a = cells h a"
    and "(\<exists>e. res = Inl e) = (truthy config \<and> \<not> all_flags_readable config)"
    and "(res = Inr self) = ((truthy config \<longrightarrow> all_flags_readable config) \<and> self = fst (FlaskForm_init cls fd h))"
    and "res = Inr self \<Longrightarrow> cells h' (next_ref h) =
           appended config ''STORMPATH_ENABLE_USERNAME'' ''STORMPATH_REQUIRE_USERNAME'' ''Username is required.''"
    and "res = Inr self \<Longrightarrow> cells h' (Suc (next_ref h)) =
           appended config ''STORMPATH_ENABLE_GIVEN_NAME'' ''STORMPATH_REQUIRE_GIVEN_NAME'' ''First name is required.''"
    and "res = Inr self \<Longrightarrow> cells h' (Suc (Suc (next_ref h))) =
           appended config ''STORMPATH_ENABLE_MIDDLE_NAME'' ''STORMPATH_REQUIRE_MIDDLE_NAME'' ''Middle name is required.''"
    and "res = Inr self \<Longrightarrow> cells h' (Suc (Suc (Suc (next_ref h)))) =
           appended config ''STORMPATH_ENABLE_SURNAME'' ''STORMPATH_REQUIRE_SURNAME'' ''Surname is required.''"
proof -
  obtain self0 h0 where b: "FlaskForm_init cls fd h = (self0, h0)"
    by (cases "FlaskForm_init cls fd h")
  have f: "map_of self0 ''username'' = Some \<lparr>kind = StringField, validators = next_ref h, raw_data = fd ''username''\<rparr>"
    "map_of self0 ''given_name'' = Some \<lparr>kind = StringField, validators = Suc (next_ref h), raw_data = fd ''given_name''\<rparr>"
    "map_of self0 ''middle_name'' = Some \<lparr>kind = StringField, validators = Suc (Suc (next_ref h)), raw_data = fd ''middle_name''\<rparr>"
    "map_of self0 ''surname'' = Some \<lparr>kind = StringField, validators = Suc (Suc (Suc (next_ref h))), raw_data = fd ''surname''\<rparr>"
    using b cls bind_RegistrationForm [OF h, of fd] bind_AcceptTermsRegistrationForm [OF h, of fd]
    by auto
  have h0: "h0 = h\<lparr>cells := (cells h)(next_ref h := [], Suc (next_ref h) := [], Suc (Suc (next_ref h)) := [], Suc (Suc (Suc (next_ref h))) := []),
       next_ref := Suc (Suc (Suc (Suc (next_ref h))))\<rparr>"
    using b cls bind_RegistrationForm [OF h, of fd] bind_AcceptTermsRegistrationForm [OF h, of fd]
    by auto
  obtain r h1 where run: "run_statements
           [require_if_configured config
              ''STORMPATH_ENABLE_USERNAME'' ''STORMPATH_REQUIRE_USERNAME''
              self0 ''username'' ''Username is required.'',
            require_if_configured config
              ''STORMPATH_ENABLE_GIVEN_NAME'' ''STORMPATH_REQUIRE_GIVEN_NAME''
              self0 ''given_name'' ''First name is required.'',
            require_if_configured config
              ''STORMPATH_ENABLE_MIDDLE_NAME'' ''STORMPATH_REQUIRE_MIDDLE_NAME''
              self0 ''middle_name'' ''Middle name is required.'',
            require_if_configured config
              ''STORMPATH_ENABLE_SURNAME'' ''STORMPATH_REQUIRE_SURNAME''
              self0 ''surname'' ''Surname is required.''] h0 = (r, h1)"
    by (meson surj_pair)
  note four = run_four [OF f _ _ _ _ run, of "next_ref h", simplified]
  have res: "(res, h') = (if truthy config then (case r of Some e \<Rightarrow> (Inl e, h1) | None \<Rightarrow> (Inr self0, h1)) else (Inr self0, h0))"
    using init unfolding RegistrationForm_init_def b
    by (cases "truthy config") (simp_all add: run del: run_statements.simps split: option.splits)
  show "next_ref h' = Suc (Suc (Suc (Suc (next_ref h))))"
    using res four(1) h0 by (auto split: if_splits option.splits)
  show "a < next_ref h \<Longrightarrow> cells h' a = cells h a"
    using res four(2) [of a] h0 by (auto split: if_splits option.splits)
  show "(\<exists>e. res = Inl e) = (truthy config \<and> \<not> all_flags_readable config)"
    using res four(3) by (auto split: if_splits option.splits)
  show "(res = Inr self) = ((truthy config \<longrightarrow> all_flags_readable config) \<and> self = fst (FlaskForm_init cls fd h))"
    using res four(3) b by (auto split: if_splits option.splits)
  show "res = Inr self \<Longrightarrow> cells h' (next_ref h) =
           appended config ''STORMPATH_ENABLE_USERNAME'' ''STORMPATH_REQUIRE_USERNAME'' ''Username is required.''"
    using res four(4) h0 by (auto simp: falsy_not_marked split: if_splits option.splits)
  show "res = Inr self \<Longrightarrow> cells h' (Suc (next_ref h)) =
           appended config ''STORMPATH_ENABLE_GIVEN_NAME'' ''STORMPATH_REQUIRE_GIVEN_NAME'' ''First name is required.''"
    using res four(5) h0 by (auto simp: falsy_not_marked split: if_splits option.splits)
  show "res = Inr self \<Longrightarrow> cells h' (Suc (Suc (next_ref h))) =
           appended config ''STORMPATH_ENABLE_MIDDLE_NAME'' ''STORMPATH_REQUIRE_MIDDLE_NAME'' ''Middle name is required.''"
    using res four(6) h0 by (auto simp: falsy_not_marked split: if_splits option.splits)
  show "res = Inr self \<Longrightarrow> cells h' (Suc (Suc (Suc (next_ref h)))) =
           appended config ''STORMPATH_ENABLE_SURNAME'' ''STORMPATH_REQUIRE_SURNAME'' ''Surname is required.''"
    using res four(7) h0 by (auto simp: falsy_not_marked split: if_splits option.splits)
qed

lemma registration_init_succeeds:
  assumes "module_loaded h"
    and "cls = RegistrationForm \<or> cls = AcceptTermsRegistrationForm"
    and "\<not> truthy config \<or> all_flags_readable config"
  shows "\<exists>self h'. RegistrationForm_init cls fd config h = (Inr self, h')"
proof -
  obtain res h' where init: "RegistrationForm_init cls fd config h = (res, h')"
    by (meson surj_pair)
  have "\<not> (\<exists>e. res = Inl e)"
    using registration_init(3) [OF assms(1,2) init] assms(3) by blast
  then obtain self where "res = Inr self"
    by (cases res) auto
  with init show ?thesis by blast
qed

lemma registration_init_loaded:
  assumes "module_loaded h"
    and "cls = RegistrationForm \<or> cls = AcceptTermsRegistrationForm"
    and "RegistrationForm_init cls fd config h = (res, h')"
  shows "module_loaded h'"
proof (rule module_loaded_frame [OF assms(1)])
  show "next_ref h \<le> next_ref h'"
    using registration_init(1) [OF assms] by simp
  show "\<And>a. a < next_ref h \<Longrightarrow> cells h' a = cells h a"
    using registration_init(2) [OF assms] by simp
qed

lemma registration_init_error:
  assumes h: "module_loaded h"
    and init: "RegistrationForm_init RegistrationForm fd config h = (Inl e, h')"
  shows "\<exists>en rq. \<not> flags_readable config en rq \<and> e = flag_error config en rq"
proof -
  obtain self0 h0 where b: "FlaskForm_init RegistrationForm fd h = (self0, h0)"
    by (cases "FlaskForm_init RegistrationForm fd h")
  have f: "map_of self0 ''username'' = Some \<lparr>kind = StringField, validators = next_ref h, raw_data = fd ''username''\<rparr>"
    "map_of self0 ''given_name'' = Some \<lparr>kind = StringField, validators = Suc (next_ref h), raw_data = fd ''given_name''\<rparr>"
    "map_of self0 ''middle_name'' = Some \<lparr>kind = StringField, validators = Suc (Suc (next_ref h)), raw_data = fd ''middle_name''\<rparr>"
    "map_of self0 ''surname'' = Some \<lparr>kind = StringField, validators = Suc (Suc (Suc (next_ref h))), raw_data = fd ''surname''\<rparr>"
    using b bind_RegistrationForm [OF h, of fd] by auto
  obtain r h1 where run: "run_statements
           [require_if_configured config
              ''STORMPATH_ENABLE_USERNAME'' ''STORMPATH_REQUIRE_USERNAME''
              self0 ''username'' ''Username is required.'',
            require_if_configured config
              ''STORMPATH_ENABLE_GIVEN_NAME'' ''STORMPATH_REQUIRE_GIVEN_NAME''
              self0 ''given_name'' ''First name is required.'',
            require_if_configured config
              ''STORMPATH_ENABLE_MIDDLE_NAME'' ''STORMPATH_REQUIRE_MIDDLE_NAME''
              self0 ''middle_name'' ''Middle name is required.'',
            require_if_configured config
              ''STORMPATH_ENABLE_SURNAME'' ''STORMPATH_REQUIRE_SURNAME''
              self0 ''surname'' ''Surname is required.''] h0 = (r, h1)"
    by (meson surj_pair)
  have "r = Some e"
    using init unfolding RegistrationForm_init_def b
    by (cases "truthy config") (simp_all add: run del: run_statements.simps split: option.splits)
  with run run_four_error [OF f] show ?thesis by blast
qed

lemma optional_validator_lists:
  assumes "module_loaded h"
    and "RegistrationForm_init RegistrationForm fd config h = (Inr self, h')"
  shows "validators_of h' self ''username'' =
           Some (appended config ''STORMPATH_ENABLE_USERNAME'' ''STORMPATH_REQUIRE_USERNAME''
                   ''Username is required.'')"
    and "validators_of h' self ''given_name'' =
           Some (appended config ''STORMPATH_ENABLE_GIVEN_NAME'' ''STORMPATH_REQUIRE_GIVEN_NAME''
                   ''First name is required.'')"
    and "validators_of h' self ''middle_name'' =
           Some (appended config ''STORMPATH_ENABLE_MIDDLE_NAME'' ''STORMPATH_REQUIRE_MIDDLE_NAME''
                   ''Middle name is required.'')"
    and "validators_of h' self ''surname'' =
           Some (appended config ''STORMPATH_ENABLE_SURNAME'' ''STORMPATH_REQUIRE_SURNAME''
                   ''Surname is required.'')"
proof -
  note init = registration_init [OF assms(1) disjI1 [OF refl] assms(2)]
  have self: "self = fst (FlaskForm_init RegistrationForm fd h)"
    using init(4) [of self] by simp
  note c = init(5-8) [OF refl]
  show "validators_of h' self ''username'' =
           Some (appended config ''STORMPATH_ENABLE_USERNAME'' ''STORMPATH_REQUIRE_USERNAME''
                   ''Username is required.'')"
    and "validators_of h' self ''given_name'' =
           Some (appended config ''STORMPATH_ENABLE_GIVEN_NAME'' ''STORMPATH_REQUIRE_GIVEN_NAME''
                   ''First name is required.'')"
    and "validators_of h' self ''middle_name'' =
           Some (appended config ''STORMPATH_ENABLE_MIDDLE_NAME'' ''STORMPATH_REQUIRE_MIDDLE_NAME''
                   ''Middle name is required.'')"
    and "validators_of h' self ''surname'' =
           Some (appended config ''STORMPATH_ENABLE_SURNAME'' ''STORMPATH_REQUIRE_SURNAME''
                   ''Surname is required.'')"
    unfolding self bind_RegistrationForm [OF assms(1)]
    by (simp_all add: validators_of_def field_validators_def c)
qed

subsection \<open>Validation of the bound fields\<close>

lemma chain_appended:
  "run_validation_chain is_email frm f (appended config en rq msg) [] =
     (if marked_required config en rq \<and> \<not> (raw_data f \<noteq> [] \<and> hd (raw_data f) \<noteq> []) \<and> msg \<noteq> []
      then [msg] else [])"
  by (simp add: appended_def)

lemma chain_required:
  "run_validation_chain is_email frm \<lparr>kind = k, validators = r, raw_data = fd n\<rparr>
     [InputRequired m1] [] =
     (if present fd n then [] else (if m1 \<noteq> [] then [m1] else []))"
  by (simp add: present_def)

lemma chain_required_email:
  "run_validation_chain is_email frm \<lparr>kind = StringField, validators = r, raw_data = fd n\<rparr>
     [InputRequired m1, Email m2] [] =
     (if present fd n then (if is_email (hd (fd n)) then [] else [m2])
      else (if m1 \<noteq> [] then [m1] else []))"
  by (cases "fd n") (simp_all add: present_def data_def)

lemma chain_required_email_raw:
  "run_validation_chain is_email frm \<lparr>kind = StringField, validators = r, raw_data = xs\<rparr>
     [InputRequired m1, Email m2] [] =
     (if xs \<noteq> [] \<and> hd xs \<noteq> [] then (if is_email (hd xs) then [] else [m2])
      else (if m1 \<noteq> [] then [m1] else []))"
  by (cases xs) (simp_all add: data_def)

lemma text_data:
  "k \<noteq> BooleanField \<Longrightarrow>
     data \<lparr>kind = k, validators = r, raw_data = xs\<rparr> = DStr (if xs = [] then [] else hd xs)"
  by (cases xs; cases k) (simp_all add: data_def)

lemma registration_validate:
  assumes "module_loaded h"
    and "RegistrationForm_init RegistrationForm fd config h = (Inr self, h')"
  shows "validate is_email h' self =
     (present fd ''email'' \<and> is_email (hd (fd ''email'')) \<and> present fd ''password'' \<and>
      (marked_required config ''STORMPATH_ENABLE_USERNAME'' ''STORMPATH_REQUIRE_USERNAME'' \<longrightarrow> present fd ''username'') \<and>
      (marked_required config ''STORMPATH_ENABLE_GIVEN_NAME'' ''STORMPATH_REQUIRE_GIVEN_NAME'' \<longrightarrow> present fd ''given_name'') \<and>
      (marked_required config ''STORMPATH_ENABLE_MIDDLE_NAME'' ''STORMPATH_REQUIRE_MIDDLE_NAME'' \<longrightarrow> present fd ''middle_name'') \<and>
      (marked_required config ''STORMPATH_ENABLE_SURNAME'' ''STORMPATH_REQUIRE_SURNAME'' \<longrightarrow> present fd ''surname''))"
proof -
  note init = registration_init [OF assms(1) disjI1 [OF refl] assms(2)]
  have self: "self = fst (FlaskForm_init RegistrationForm fd h)"
    using init(4) [of self] by simp
  note c = init(5-8) [OF refl]
  note l = loaded_cells [OF registration_init_loaded [OF assms(1) disjI1 [OF refl] assms(2)]]
  show ?thesis
    unfolding self bind_RegistrationForm [OF assms(1)]
    by (simp add: validate_def field_errors_def field_validators_def c l(1,2)
        chain_appended chain_required chain_required_email del: run_validation_chain.simps)
      (auto simp: present_def)
qed

lemma accept_terms_validate:
  assumes "module_loaded h"
    and "RegistrationForm_init AcceptTermsRegistrationForm fd config h = (Inr self, h')"
  shows "validate is_email h' self =
     (present fd ''email'' \<and> is_email (hd (fd ''email'')) \<and> present fd ''password'' \<and>
      present fd ''accept'' \<and>
      (marked_required config ''STORMPATH_ENABLE_USERNAME'' ''STORMPATH_REQUIRE_USERNAME'' \<longrightarrow> present fd ''username'') \<and>
      (marked_required config ''STORMPATH_ENABLE_GIVEN_NAME'' ''STORMPATH_REQUIRE_GIVEN_NAME'' \<longrightarrow> present fd ''given_name'') \<and>
      (marked_required config ''STORMPATH_ENABLE_MIDDLE_NAME'' ''STORMPATH_REQUIRE_MIDDLE_NAME'' \<longrightarrow> present fd ''middle_name'') \<and>
      (marked_required config ''STORMPATH_ENABLE_SURNAME'' ''STORMPATH_REQUIRE_SURNAME'' \<longrightarrow> present fd ''surname''))"
proof -
  note init = registration_init [OF assms(1) disjI2 [OF refl] assms(2)]
  have self: "self = fst (FlaskForm_init AcceptTermsRegistrationForm fd h)"
    using init(4) [of self] by simp
  note c = init(5-8) [OF refl]
  note l = loaded_cells [OF registration_init_loaded [OF assms(1) disjI2 [OF refl] assms(2)]]
  show ?thesis
    unfolding self bind_AcceptTermsRegistrationForm [OF assms(1)]
    by (simp add: validate_def field_errors_def field_validators_def c l(1,2,3)
        chain_appended chain_required chain_required_email del: run_validation_chain.simps)
      (auto simp: present_def)
qed

lemma accept_terms_accept_field:
  assumes "module_loaded h"
    and "RegistrationForm_init AcceptTermsRegistrationForm fd config h = (Inr self, h')"
  shows "map_of self ''accept'' = Some \<lparr>kind = BooleanField, validators = 2, raw_data = fd ''accept''\<rparr>"
    and "cells h' 2 = [InputRequired ''You have to accept the terms and conditions in order to use the bulletin board.'']"
proof -
  note init = registration_init [OF assms(1) disjI2 [OF refl] assms(2)]
  have self: "self = fst (FlaskForm_init AcceptTermsRegistrationForm fd h)"
    using init(4) [of self] by simp
  show "map_of self ''accept'' = Some \<lparr>kind = BooleanField, validators = 2, raw_data = fd ''accept''\<rparr>"
    unfolding self bind_AcceptTermsRegistrationForm [OF assms(1)] by simp
  show "cells h' 2 = [InputRequired ''You have to accept the terms and conditions in order to use the bulletin board.'']"
    using loaded_cells(3) [OF registration_init_loaded [OF assms(1) disjI2 [OF refl] assms(2)]] .
qed

subsection \<open>Lists kept from store to store\<close>

lemma keeps_lists_refl: "keeps_lists h h"
  by (simp add: keeps_lists_def)

lemma keeps_lists_trans: "keeps_lists h1 h2 \<Longrightarrow> keeps_lists h2 h3 \<Longrightarrow> keeps_lists h1 h3"
  by (auto simp: keeps_lists_def)

lemma keeps_lists_loaded: "module_loaded h \<Longrightarrow> keeps_lists h h' \<Longrightarrow> module_loaded h'"
  by (simp add: module_loaded_def keeps_lists_def)

lemma registration_instance_lists:
  assumes "module_loaded h"
    and "cls = RegistrationForm \<or> cls = AcceptTermsRegistrationForm"
    and "RegistrationForm_init cls fd config h = (Inr self, h')"
  shows "own_or_class_lists (next_ref h) self" and "lists_exist h' self"
proof -
  note init = registration_init [OF assms]
  have self: "self = fst (FlaskForm_init cls fd h)"
    using init(4) [of self] by simp
  have n: "8 \<le> next_ref h"
    using assms(1) by (simp add: module_loaded_def)
  show "own_or_class_lists (next_ref h) self"
    using assms(2) unfolding self
    by (auto simp: bind_RegistrationForm [OF assms(1)]
        bind_AcceptTermsRegistrationForm [OF assms(1)] own_or_class_lists_def)
  show "lists_exist h' self"
    using assms(2) n unfolding self
    by (auto simp: bind_RegistrationForm [OF assms(1)]
        bind_AcceptTermsRegistrationForm [OF assms(1)] lists_exist_def init(1))
qed

lemma registration_keeps_lists:
  assumes "module_loaded h"
    and "cls = RegistrationForm \<or> cls = AcceptTermsRegistrationForm"
    and "RegistrationForm_init cls fd config h = (res, h')"
  shows "keeps_lists h h'"
  using registration_init(1,2) [OF assms] by (simp add: keeps_lists_def)

lemma instantiate_keeps_lists:
  assumes "module_loaded h" and "instantiate i h = (res, h')"
  shows "keeps_lists h h'"
proof (cases i)
  case (New_RegistrationForm fd config)
  then show ?thesis
    using registration_keeps_lists [OF assms(1) disjI1 [OF refl]] assms(2) by simp
next
  case (New_AcceptTermsRegistrationForm fd config)
  then show ?thesis
    using registration_keeps_lists [OF assms(1) disjI2 [OF refl]] assms(2) by simp
next
  case (New_LoginForm fd)
  then show ?thesis
    using assms(2) by (auto simp: plain_init_def bind_LoginForm [OF assms(1)] keeps_lists_def)
next
  case (New_ForgotPasswordForm fd)
  then show ?thesis
    using assms(2)
    by (auto simp: plain_init_def bind_ForgotPasswordForm [OF assms(1)] keeps_lists_def)
next
  case (New_ChangePasswordForm fd)
  then show ?thesis
    using assms(2)
    by (auto simp: plain_init_def bind_ChangePasswordForm [OF assms(1)] keeps_lists_def)
next
  case (New_ChangePasswordFormHref fd)
  then show ?thesis
    using assms(2)
    by (auto simp: plain_init_def bind_ChangePasswordFormHref [OF assms(1)] keeps_lists_def)
next
  case (New_ResendVerificationForm fd)
  then show ?thesis
    using assms(2)
    by (auto simp: plain_init_def bind_ResendVerificationForm keeps_lists_def)
qed

lemma instantiate_instance_lists:
  assumes "module_loaded h" and "instantiate i h = (Inr self, h')"
  shows "own_or_class_lists (next_ref h) self \<and> lists_exist h' self"
proof -
  have n: "8 \<le> next_ref h"
    using assms(1) by (simp add: module_loaded_def)
  show ?thesis
  proof (cases i)
    case (New_RegistrationForm fd config)
    then show ?thesis
      using registration_instance_lists [OF assms(1) disjI1 [OF refl]] assms(2) by simp
  next
    case (New_AcceptTermsRegistrationForm fd config)
    then show ?thesis
      using registration_instance_lists [OF assms(1) disjI2 [OF refl]] assms(2) by simp
  next
    case (New_LoginForm fd)
    then show ?thesis
      using assms(2) n
      by (auto simp: plain_init_def bind_LoginForm [OF assms(1)] own_or_class_lists_def
          lists_exist_def)
  next
    case (New_ForgotPasswordForm fd)
    then show ?thesis
      using assms(2) n
      by (auto simp: plain_init_def bind_ForgotPasswordForm [OF assms(1)]
          own_or_class_lists_def lists_exist_def)
  next
    case (New_ChangePasswordForm fd)
    then show ?thesis
      using assms(2) n
      by (auto simp: plain_init_def bind_ChangePasswordForm [OF assms(1)]
          own_or_class_lists_def lists_exist_def)
  next
    case (New_ChangePasswordFormHref fd)
    then show ?thesis
      using assms(2) n
      by (auto simp: plain_init_def bind_ChangePasswordFormHref [OF assms(1)]
          own_or_class_lists_def lists_exist_def)
  next
    case (New_ResendVerificationForm fd)
    then show ?thesis
      using assms(2) n
      by (auto simp: plain_init_def bind_ResendVerificationForm own_or_class_lists_def
          lists_exist_def)
  qed
qed

lemma instantiate_all_keeps_lists:
  "module_loaded h \<Longrightarrow> keeps_lists h (instantiate_all js h)"
proof (induction js arbitrary: h)
  case Nil
  then show ?case by (simp add: keeps_lists_refl)
next
  case (Cons i js)
  obtain res h1 where i: "instantiate i h = (res, h1)"
    by (meson surj_pair)
  have k: "keeps_lists h h1"
    using instantiate_keeps_lists [OF Cons.prems i] .
  have "keeps_lists h1 (instantiate_all js h1)"
    using Cons.IH [OF keeps_lists_loaded [OF Cons.prems k]] .
  with k show ?case
    using i by (simp add: keeps_lists_trans [OF k])
qed

lemma kept_validators_of:
  assumes "keeps_lists h h'" and "lists_exist h frm"
  shows "validators_of h' frm n = validators_of h frm n"
proof (cases "map_of frm n")
  case None
  then show ?thesis by (simp add: validators_of_def)
next
  case (Some f)
  then have "(n, f) \<in> set frm"
    by (rule map_of_SomeD)
  then have "validators f < next_ref h"
    using assms(2) by (auto simp: lists_exist_def list_all_iff)
  then show ?thesis
    using assms(1) Some by (simp add: validators_of_def field_validators_def keeps_lists_def)
qed

section \<open>The claims\<close>

subsection \<open>The conditional validators of the registration form\<close>

text \<open>
  Claim C1. When the constructor of \<open>RegistrationForm\<close> returns an instance, the validator
  list of each of \<open>username\<close>, \<open>given_name\<close>, \<open>middle_name\<close> and \<open>surname\<close> holds the one
  \<open>InputRequired\<close> validator with that field's message when the configuration marks the
  field enabled and required, and is empty otherwise; the list of one field depends on the
  two flags of that field only. So an empty submitted username gets the message
  \<open>Username is required.\<close> when username is enabled and required, and no message when it
  is not.
\<close>

theorem required_validator_iff_enabled_and_required:
  assumes "module_loaded h"
    and "RegistrationForm_init RegistrationForm fd config h = (Inr self, h')"
  shows "validators_of h' self ''username'' =
           Some (if marked_required config ''STORMPATH_ENABLE_USERNAME'' ''STORMPATH_REQUIRE_USERNAME''
                 then [InputRequired ''Username is required.''] else []) \<and>
         validators_of h' self ''given_name'' =
           Some (if marked_required config ''STORMPATH_ENABLE_GIVEN_NAME'' ''STORMPATH_REQUIRE_GIVEN_NAME''
                 then [InputRequired ''First name is required.''] else []) \<and>
         validators_of h' self ''middle_name'' =
           Some (if marked_required config ''STORMPATH_ENABLE_MIDDLE_NAME'' ''STORMPATH_REQUIRE_MIDDLE_NAME''
                 then [InputRequired ''Middle name is required.''] else []) \<and>
         validators_of h' self ''surname'' =
           Some (if marked_required config ''STORMPATH_ENABLE_SURNAME'' ''STORMPATH_REQUIRE_SURNAME''
                 then [InputRequired ''Surname is required.''] else []) \<and>
         (\<not> present fd ''username'' \<longrightarrow>
            errors_of is_email h' self ''username'' =
              Some (if marked_required config ''STORMPATH_ENABLE_USERNAME'' ''STORMPATH_REQUIRE_USERNAME''
                    then [''Username is required.''] else []))"
proof -
  note init = registration_init [OF assms(1) disjI1 [OF refl] assms(2)]
  have self: "self = fst (FlaskForm_init RegistrationForm fd h)"
    using init(4) [of self] by simp
  note c = init(5-8) [OF refl]
  show ?thesis
    unfolding self bind_RegistrationForm [OF assms(1)]
    by (simp add: validators_of_def errors_of_def field_errors_def field_validators_def c
        chain_appended present_def) (simp add: appended_def)
qed

theorem required_validator_iff_enabled_and_required_witness:
  "\<exists>self h'. RegistrationForm_init RegistrationForm (\<lambda>n. []) all_required_config module_heap = (Inr self, h') \<and>
     validators_of h' self ''username'' = Some [InputRequired ''Username is required.''] \<and>
     validators_of h' self ''surname'' = Some [InputRequired ''Surname is required.''] \<and>
     errors_of sample_is_email h' self ''username'' = Some [''Username is required.'']"
proof -
  obtain self h' where init:
    "RegistrationForm_init RegistrationForm (\<lambda>n. []) all_required_config module_heap = (Inr self, h')"
    using registration_init_succeeds [OF module_loaded_module_heap disjI1 [OF refl] disjI2 [OF all_required_config_flags(2)]]
    by blast
  show ?thesis
    using required_validator_iff_enabled_and_required [OF module_loaded_module_heap init, of sample_is_email] init
    by (simp add: all_required_config_flags present_def)
qed

subsection \<open>The base validators of the registration form\<close>

text \<open>
  Claim C2. In every instance the constructor of \<open>RegistrationForm\<close> returns, the validator
  list of \<open>email\<close> is \<open>InputRequired\<close> followed by \<open>Email\<close> and that of \<open>password\<close> is
  \<open>InputRequired\<close> alone; as bound, before the constructor looks at the configuration,
  the other four fields have empty lists. The form validates only if an email was
  submitted and matches the address pattern and a password was submitted.
\<close>

theorem registration_base_validators:
  assumes "module_loaded h"
    and "RegistrationForm_init RegistrationForm fd config h = (Inr self, h')"
  shows "validators_of h' self ''email'' =
           Some [InputRequired ''You must provide an email address.'',
                 Email ''You must provide a valid email address.''] \<and>
         validators_of h' self ''password'' = Some [InputRequired ''You must supply a password.''] \<and>
         validators_of (snd (FlaskForm_init RegistrationForm fd h))
           (fst (FlaskForm_init RegistrationForm fd h)) ''username'' = Some [] \<and>
         validators_of (snd (FlaskForm_init RegistrationForm fd h))
           (fst (FlaskForm_init RegistrationForm fd h)) ''given_name'' = Some [] \<and>
         validators_of (snd (FlaskForm_init RegistrationForm fd h))
           (fst (FlaskForm_init RegistrationForm fd h)) ''middle_name'' = Some [] \<and>
         validators_of (snd (FlaskForm_init RegistrationForm fd h))
           (fst (FlaskForm_init RegistrationForm fd h)) ''surname'' = Some [] \<and>
         (validate is_email h' self \<longrightarrow>
            present fd ''email'' \<and> is_email (hd (fd ''email'')) \<and> present fd ''password'')"
proof -
  note init = registration_init [OF assms(1) disjI1 [OF refl] assms(2)]
  have self: "self = fst (FlaskForm_init RegistrationForm fd h)"
    using init(4) [of self] by simp
  note l = loaded_cells [OF registration_init_loaded [OF assms(1) disjI1 [OF refl] assms(2)]]
  have "validators_of h' self ''email'' =
           Some [InputRequired ''You must provide an email address.'',
                 Email ''You must provide a valid email address.'']"
    and "validators_of h' self ''password'' = Some [InputRequired ''You must supply a password.'']"
    unfolding self bind_RegistrationForm [OF assms(1)]
    by (simp_all add: validators_of_def field_validators_def l(1,2))
  moreover have "validators_of (snd (FlaskForm_init RegistrationForm fd h))
           (fst (FlaskForm_init RegistrationForm fd h)) ''username'' = Some []"
    and "validators_of (snd (FlaskForm_init RegistrationForm fd h))
           (fst (FlaskForm_init RegistrationForm fd h)) ''given_name'' = Some []"
    and "validators_of (snd (FlaskForm_init RegistrationForm fd h))
           (fst (FlaskForm_init RegistrationForm fd h)) ''middle_name'' = Some []"
    and "validators_of (snd (FlaskForm_init RegistrationForm fd h))
           (fst (FlaskForm_init RegistrationForm fd h)) ''surname'' = Some []"
    unfolding bind_RegistrationForm [OF assms(1)]
    by (simp_all add: validators_of_def field_validators_def)
  moreover have "validate is_email h' self \<longrightarrow>
            present fd ''email'' \<and> is_email (hd (fd ''email'')) \<and> present fd ''password''"
    using registration_validate [OF assms, of is_email] by simp
  ultimately show ?thesis by simp
qed

theorem registration_base_validators_witness:
  "\<exists>self h'. RegistrationForm_init RegistrationForm
       ((\<lambda>n. [])(''email'' := [''user@example.com''], ''password'' := [''secret'']))
       PNone module_heap = (Inr self, h') \<and>
     validate sample_is_email h' self \<and>
     validators_of h' self ''email'' =
       Some [InputRequired ''You must provide an email address.'',
             Email ''You must provide a valid email address.''] \<and>
     validators_of h' self ''password'' = Some [InputRequired ''You must supply a password.''] \<and>
     present ((\<lambda>n. [])(''email'' := [''user@example.com''], ''password'' := [''secret''])) ''email''"
proof -
  obtain self h' where init:
    "RegistrationForm_init RegistrationForm
       ((\<lambda>n. [])(''email'' := [''user@example.com''], ''password'' := [''secret'']))
       PNone module_heap = (Inr self, h')"
    using registration_init_succeeds [OF module_loaded_module_heap disjI1 [OF refl] disjI1 [OF falsy_PNone]]
    by blast
  have v: "validate sample_is_email h' self"
    using registration_validate [OF module_loaded_module_heap init, of sample_is_email]
    by (simp add: present_def sample_is_email_def marked_required_def)
  show ?thesis
    using registration_base_validators [OF module_loaded_module_heap init, of sample_is_email] init v
    by simp
qed

subsection \<open>No configuration\<close>

text \<open>
  Claim C3. Without a configuration (the default \<open>None\<close>) the constructor returns an
  instance whose four optional fields have empty validator lists and never get a message,
  whatever was submitted; the form validates exactly when email and password pass.
\<close>

theorem no_config_only_base_fields:
  assumes "module_loaded h"
  shows "\<exists>self h'. RegistrationForm_init RegistrationForm fd PNone h = (Inr self, h') \<and>
     validators_of h' self ''username'' = Some [] \<and>
     validators_of h' self ''given_name'' = Some [] \<and>
     validators_of h' self ''middle_name'' = Some [] \<and>
     validators_of h' self ''surname'' = Some [] \<and>
     errors_of is_email h' self ''username'' = Some [] \<and>
     errors_of is_email h' self ''given_name'' = Some [] \<and>
     errors_of is_email h' self ''middle_name'' = Some [] \<and>
     errors_of is_email h' self ''surname'' = Some [] \<and>
     validate is_email h' self =
       (present fd ''email'' \<and> is_email (hd (fd ''email'')) \<and> present fd ''password'')"
proof -
  obtain self h' where init: "RegistrationForm_init RegistrationForm fd PNone h = (Inr self, h')"
    using registration_init_succeeds [OF assms disjI1 [OF refl] disjI1 [OF falsy_PNone]] by blast
  note i = registration_init [OF assms disjI1 [OF refl] init]
  have self: "self = fst (FlaskForm_init RegistrationForm fd h)"
    using i(4) [of self] by simp
  note c = i(5-8) [OF refl]
  have "validators_of h' self ''username'' = Some []"
    and "validators_of h' self ''given_name'' = Some []"
    and "validators_of h' self ''middle_name'' = Some []"
    and "validators_of h' self ''surname'' = Some []"
    and "errors_of is_email h' self ''username'' = Some []"
    and "errors_of is_email h' self ''given_name'' = Some []"
    and "errors_of is_email h' self ''middle_name'' = Some []"
    and "errors_of is_email h' self ''surname'' = Some []"
    unfolding self bind_RegistrationForm [OF assms]
    by (simp_all add: validators_of_def errors_of_def field_errors_def field_validators_def c
        falsy_not_marked)
  moreover have "validate is_email h' self =
       (present fd ''email'' \<and> is_email (hd (fd ''email'')) \<and> present fd ''password'')"
    using registration_validate [OF assms init, of is_email]
    by (simp add: marked_required_def)
  ultimately show ?thesis using init by simp
qed

theorem no_config_only_base_fields_witness:
  "\<exists>self h'. RegistrationForm_init RegistrationForm (\<lambda>n. []) PNone module_heap = (Inr self, h') \<and>
     validators_of h' self ''username'' = Some [] \<and>
     errors_of sample_is_email h' self ''username'' = Some [] \<and>
     \<not> validate sample_is_email h' self"
  using no_config_only_base_fields [OF module_loaded_module_heap, of "\<lambda>n. []" sample_is_email]
  by (auto simp: present_def)

subsection \<open>The form that changes a password\<close>

text \<open>
  Claim C4. In \<open>ChangePasswordForm\<close> the validator list of \<open>password\<close> is \<open>InputRequired\<close>
  alone and that of \<open>password_again\<close> is \<open>InputRequired\<close> followed by
  \<open>EqualTo('password')\<close>. When both values were submitted, the form validates exactly
  when the two strings are equal, character for character, and when they differ the only
  message is \<open>Passwords do not match.\<close>, on \<open>password_again\<close>.
\<close>

theorem change_password_fields_must_match:
  assumes "module_loaded h"
    and "FlaskForm_init ChangePasswordForm fd h = (self, h')"
  shows "validators_of h' self ''password'' = Some [InputRequired ''Password required.''] \<and>
         validators_of h' self ''password_again'' =
           Some [InputRequired ''Please verify the password.'',
                 EqualTo ''password'' ''Passwords do not match.''] \<and>
         (present fd ''password'' \<and> present fd ''password_again'' \<longrightarrow>
            validate is_email h' self = (hd (fd ''password_again'') = hd (fd ''password'')) \<and>
            (hd (fd ''password_again'') \<noteq> hd (fd ''password'') \<longrightarrow>
               errors is_email h' self = [(''password_again'', [''Passwords do not match.''])]))"
proof -
  have s: "self = fst (FlaskForm_init ChangePasswordForm fd h)"
    and h': "h' = h"
    using assms(2) bind_ChangePasswordForm [OF assms(1), of fd] by simp_all
  note l = loaded_cells [OF assms(1)]
  show ?thesis
    unfolding s h' bind_ChangePasswordForm [OF assms(1)]
    by (simp add: validators_of_def field_validators_def l validate_def errors_def
        field_errors_def text_data)
      (auto simp: present_def)
qed

theorem change_password_fields_must_match_witness:
  "validate sample_is_email module_heap
     (fst (FlaskForm_init ChangePasswordForm
        ((\<lambda>n. [])(''password'' := [''abc123''], ''password_again'' := [''abc123''])) module_heap)) \<and>
   \<not> validate sample_is_email module_heap
     (fst (FlaskForm_init ChangePasswordForm
        ((\<lambda>n. [])(''password'' := [''abc123''], ''password_again'' := [''abc124''])) module_heap)) \<and>
   errors sample_is_email module_heap
     (fst (FlaskForm_init ChangePasswordForm
        ((\<lambda>n. [])(''password'' := [''abc123''], ''password_again'' := [''abc124''])) module_heap)) =
     [(''password_again'', [''Passwords do not match.''])]"
proof -
  have a: "FlaskForm_init ChangePasswordForm fd module_heap =
      (fst (FlaskForm_init ChangePasswordForm fd module_heap), module_heap)" for fd
    using bind_ChangePasswordForm [OF module_loaded_module_heap, of fd] by simp
  show ?thesis
    using change_password_fields_must_match [OF module_loaded_module_heap a, of _ sample_is_email]
    by (simp add: present_def)
qed

subsection \<open>The registration form with terms\<close>

text \<open>
  Claim C5, as amended. In every instance of \<open>AcceptTermsRegistrationForm\<close>, whatever the
  configuration, the validator list of \<open>accept\<close> is the one \<open>InputRequired\<close> of the class
  body. When no value, or an empty one, is submitted for \<open>accept\<close>, the form is invalid
  whatever the other fields hold, with that message on \<open>accept\<close>. When \<open>accept\<close> is true,
  the email is submitted and matches the address pattern, the password is submitted, and
  every optional field that the configuration marks enabled and required is submitted, the
  form is valid.
\<close>

theorem accept_terms_required:
  assumes "module_loaded h"
    and "RegistrationForm_init AcceptTermsRegistrationForm fd config h = (Inr self, h')"
  shows "validators_of h' self ''accept'' =
           Some [InputRequired ''You have to accept the terms and conditions in order to use the bulletin board.''] \<and>
         (\<not> present fd ''accept'' \<longrightarrow>
            \<not> validate is_email h' self \<and>
            errors_of is_email h' self ''accept'' =
              Some [''You have to accept the terms and conditions in order to use the bulletin board.'']) \<and>
         (map_option data (map_of self ''accept'') = Some (DBool True) \<and>
          present fd ''email'' \<and> is_email (hd (fd ''email'')) \<and> present fd ''password'' \<and>
          (marked_required config ''STORMPATH_ENABLE_USERNAME'' ''STORMPATH_REQUIRE_USERNAME'' \<longrightarrow> present fd ''username'') \<and>
          (marked_required config ''STORMPATH_ENABLE_GIVEN_NAME'' ''STORMPATH_REQUIRE_GIVEN_NAME'' \<longrightarrow> present fd ''given_name'') \<and>
          (marked_required config ''STORMPATH_ENABLE_MIDDLE_NAME'' ''STORMPATH_REQUIRE_MIDDLE_NAME'' \<longrightarrow> present fd ''middle_name'') \<and>
          (marked_required config ''STORMPATH_ENABLE_SURNAME'' ''STORMPATH_REQUIRE_SURNAME'' \<longrightarrow> present fd ''surname'')
          \<longrightarrow> validate is_email h' self)"
proof -
  note a = accept_terms_accept_field [OF assms]
  note v = accept_terms_validate [OF assms, of is_email]
  have 1: "validators_of h' self ''accept'' =
           Some [InputRequired ''You have to accept the terms and conditions in order to use the bulletin board.'']"
    by (simp add: validators_of_def field_validators_def a)
  have 2: "errors_of is_email h' self ''accept'' =
              Some [''You have to accept the terms and conditions in order to use the bulletin board.'']"
    if "\<not> present fd ''accept''"
    using that
    by (simp add: errors_of_def field_errors_def field_validators_def a chain_required
        del: run_validation_chain.simps)
  have 3: "present fd ''accept''" if "map_option data (map_of self ''accept'') = Some (DBool True)"
    using that by (simp add: a data_def present_def)
  show ?thesis
    using 1 2 3 v by blast
qed

theorem accept_terms_required_witness:
  "\<exists>self h'. RegistrationForm_init AcceptTermsRegistrationForm terms_submission PNone module_heap =
       (Inr self, h') \<and>
     map_option data (map_of self ''accept'') = Some (DBool True) \<and>
     validate sample_is_email h' self \<and>
     validators_of h' self ''accept'' =
       Some [InputRequired ''You have to accept the terms and conditions in order to use the bulletin board.'']"
proof -
  obtain self h' where init:
    "RegistrationForm_init AcceptTermsRegistrationForm terms_submission PNone module_heap = (Inr self, h')"
    using registration_init_succeeds [OF module_loaded_module_heap disjI2 [OF refl] disjI1 [OF falsy_PNone]]
    by blast
  have d: "map_option data (map_of self ''accept'') = Some (DBool True)"
    by (simp add: accept_terms_accept_field(1) [OF module_loaded_module_heap init] data_def
        terms_submission_def)
  show ?thesis
    using accept_terms_required [OF module_loaded_module_heap init, of sample_is_email] init d
    by (simp add: present_def terms_submission_def sample_is_email_def marked_required_def)
qed

text \<open>
  Claim C5 as stated fails: with a configuration that requires the optional fields, a
  submission with \<open>accept\<close> true, a well-formed email and a password, and nothing else,
  is invalid.
\<close>

theorem accept_terms_valid_counterexample:
  "map_option data (map_of (projr (fst (RegistrationForm_init AcceptTermsRegistrationForm
       terms_submission all_required_config module_heap))) ''accept'') = Some (DBool True) \<and>
   present terms_submission ''email'' \<and> sample_is_email (hd (terms_submission ''email'')) \<and>
   present terms_submission ''password'' \<and>
   \<not> isl (fst (RegistrationForm_init AcceptTermsRegistrationForm
       terms_submission all_required_config module_heap)) \<and>
   \<not> validate sample_is_email
       (snd (RegistrationForm_init AcceptTermsRegistrationForm
          terms_submission all_required_config module_heap))
       (projr (fst (RegistrationForm_init AcceptTermsRegistrationForm
          terms_submission all_required_config module_heap)))"
proof -
  obtain self h' where init:
    "RegistrationForm_init AcceptTermsRegistrationForm terms_submission all_required_config module_heap = (Inr self, h')"
    using registration_init_succeeds [OF module_loaded_module_heap disjI2 [OF refl]
        disjI2 [OF all_required_config_flags(2)]]
    by blast
  have d: "map_option data (map_of self ''accept'') = Some (DBool True)"
    by (simp add: accept_terms_accept_field(1) [OF module_loaded_module_heap init] data_def
        terms_submission_def)
  have v: "\<not> validate sample_is_email h' self"
    by (simp add: accept_terms_validate [OF module_loaded_module_heap init]
        all_required_config_flags present_def terms_submission_def)
  show ?thesis
    unfolding init using d v
    by (simp add: present_def terms_submission_def sample_is_email_def)
qed

subsection \<open>The form for a forgotten password\<close>

text \<open>
  Claim C6. \<open>ForgotPasswordForm\<close> has the one field \<open>email\<close>, whose validator list is
  \<open>InputRequired\<close> followed by \<open>Email\<close>, run in that order: without input the only message
  is that of \<open>InputRequired\<close>; with input that does not match the address pattern the
  message is that of \<open>Email\<close>. For every address pattern that rejects \<open>not-an-email\<close>
  and accepts \<open>user@example.com\<close>, the first is invalid with the format message and the
  second is valid.
\<close>

theorem forgot_password_email_checks:
  assumes "module_loaded h"
    and "FlaskForm_init ForgotPasswordForm fd h = (self, h')"
  shows "map fst self = [''email''] \<and>
         validators_of h' self ''email'' =
           Some [InputRequired ''Email address required.'',
                 Email ''You must provide a valid email address.''] \<and>
         validate is_email h' self = (present fd ''email'' \<and> is_email (hd (fd ''email''))) \<and>
         (\<not> present fd ''email'' \<longrightarrow>
            errors is_email h' self = [(''email'', [''Email address required.''])]) \<and>
         (present fd ''email'' \<and> \<not> is_email (hd (fd ''email'')) \<longrightarrow>
            errors is_email h' self = [(''email'', [''You must provide a valid email address.''])]) \<and>
         (fd ''email'' = [''not-an-email''] \<and> \<not> is_email ''not-an-email'' \<longrightarrow>
            \<not> validate is_email h' self \<and>
            errors is_email h' self = [(''email'', [''You must provide a valid email address.''])]) \<and>
         (fd ''email'' = [''user@example.com''] \<and> is_email ''user@example.com'' \<longrightarrow>
            validate is_email h' self)"
proof -
  have s: "self = fst (FlaskForm_init ForgotPasswordForm fd h)"
    and h': "h' = h"
    using assms(2) bind_ForgotPasswordForm [OF assms(1), of fd] by simp_all
  note l = loaded_cells [OF assms(1)]
  show ?thesis
    unfolding s h' bind_ForgotPasswordForm [OF assms(1)]
    by (simp add: validators_of_def field_validators_def l validate_def errors_def
        field_errors_def chain_required_email_raw del: run_validation_chain.simps)
      (auto simp: present_def)
qed

theorem forgot_password_email_checks_witness:
  "\<not> sample_is_email ''not-an-email'' \<and> sample_is_email ''user@example.com'' \<and>
   \<not> validate sample_is_email module_heap
     (fst (FlaskForm_init ForgotPasswordForm ((\<lambda>n. [])(''email'' := [''not-an-email''])) module_heap)) \<and>
   errors sample_is_email module_heap
     (fst (FlaskForm_init ForgotPasswordForm ((\<lambda>n. [])(''email'' := [''not-an-email''])) module_heap)) =
     [(''email'', [''You must provide a valid email address.''])] \<and>
   validate sample_is_email module_heap
     (fst (FlaskForm_init ForgotPasswordForm ((\<lambda>n. [])(''email'' := [''user@example.com''])) module_heap))"
proof -
  have a: "FlaskForm_init ForgotPasswordForm fd module_heap =
      (fst (FlaskForm_init ForgotPasswordForm fd module_heap), module_heap)" for fd
    using bind_ForgotPasswordForm [OF module_loaded_module_heap, of fd] by simp
  have e: "\<not> sample_is_email ''not-an-email''" "sample_is_email ''user@example.com''"
    by (simp_all add: sample_is_email_def)
  show ?thesis
    using forgot_password_email_checks [OF module_loaded_module_heap a, of _ sample_is_email] e
    by (simp add: present_def)
qed

subsection \<open>A configuration with missing flags\<close>

text \<open>
  Claim C7, as amended. With a true configuration the constructor raises, and returns no
  instance, exactly when the flags of some optional field cannot be read: its enable key is
  missing, or its enable flag is true and its require key is missing. When the
  configuration is a mapping, the error is the \<open>KeyError\<close> of a key the mapping lacks. A
  require key that is missing for a field whose enable flag is false is never looked up.
\<close>

theorem malformed_config_raises_when_read:
  assumes "module_loaded h" and "truthy config"
  shows "isl (fst (RegistrationForm_init RegistrationForm fd config h)) =
           (\<not> all_flags_readable config) \<and>
         (\<forall>e kvs. fst (RegistrationForm_init RegistrationForm fd config h) = Inl e \<and>
                   config = PDict kvs \<longrightarrow>
                   (\<exists>k. e = KeyError k \<and> map_of kvs k = None))"
proof -
  obtain res h' where init: "RegistrationForm_init RegistrationForm fd config h = (res, h')"
    by (meson surj_pair)
  have "isl res = (\<not> all_flags_readable config)"
    using registration_init(3) [OF assms(1) disjI1 [OF refl] init] assms(2)
    by (cases res) auto
  moreover have "\<exists>k. e = KeyError k \<and> map_of kvs k = None"
    if "res = Inl e" and "config = PDict kvs" for e kvs
    using registration_init_error [OF assms(1), of fd config e h'] init that flag_error_dict
    by blast
  ultimately show ?thesis
    using init by simp
qed

theorem malformed_config_raises_when_read_witness:
  "truthy username_enabled_only_config \<and>
   isl (fst (RegistrationForm_init RegistrationForm (\<lambda>n. []) username_enabled_only_config module_heap))"
proof -
  have t: "truthy username_enabled_only_config"
    by (simp add: username_enabled_only_config_def)
  have "\<not> all_flags_readable username_enabled_only_config"
    by (simp add: username_enabled_only_config_def all_flags_readable_def flags_readable_def)
  then show ?thesis
    using malformed_config_raises_when_read [OF module_loaded_module_heap t, of "\<lambda>n. []"] t
    by simp
qed

text \<open>
  Claim C7 as stated fails: a true mapping that lacks every require key, and disables
  every optional field, is accepted by the constructor.
\<close>

theorem missing_require_key_counterexample:
  "truthy all_disabled_config \<and>
   getitem all_disabled_config ''STORMPATH_REQUIRE_USERNAME'' =
     Inl (KeyError ''STORMPATH_REQUIRE_USERNAME'') \<and>
   \<not> isl (fst (RegistrationForm_init RegistrationForm (\<lambda>n. []) all_disabled_config module_heap))"
proof -
  obtain self h' where
    "RegistrationForm_init RegistrationForm (\<lambda>n. []) all_disabled_config module_heap = (Inr self, h')"
    using registration_init_succeeds [OF module_loaded_module_heap disjI1 [OF refl]
        disjI2 [OF all_disabled_config_flags(2)]]
    by blast
  then show ?thesis
    by (simp add: all_disabled_config_flags)
qed

subsection \<open>Validator lists across instances\<close>

text \<open>
  Claim C8, as amended. Take an instance of any of the seven classes. Whatever is
  instantiated afterwards, with whatever configuration and whether the constructor returns
  or raises, every validator list of the instance keeps the contents it had when the
  instance was built (validation reads the store and does not write it). Each of its lists
  is either one of the eight lists of the class bodies or a list created for this instance,
  and building the instance changed no list that existed before. A registration form built
  later without a configuration has the lists of the class bodies on \<open>email\<close> and
  \<open>password\<close> and empty lists on the four optional fields.
\<close>

theorem validator_lists_kept_by_later_instances:
  assumes "module_loaded h" and "instantiate i h = (Inr self, h1)"
  shows "(\<forall>n. validators_of (instantiate_all js h1) self n = validators_of h1 self n) \<and>
         own_or_class_lists (next_ref h) self \<and>
         keeps_lists h h1 \<and>
         (\<exists>self' h'. instantiate (New_RegistrationForm fd PNone) (instantiate_all js h1) =
              (Inr self', h') \<and>
            validators_of h' self' ''username'' = Some [] \<and>
            validators_of h' self' ''given_name'' = Some [] \<and>
            validators_of h' self' ''middle_name'' = Some [] \<and>
            validators_of h' self' ''surname'' = Some [] \<and>
            validators_of h' self' ''email'' =
              Some [InputRequired ''You must provide an email address.'',
                    Email ''You must provide a valid email address.''] \<and>
            validators_of h' self' ''password'' =
              Some [InputRequired ''You must supply a password.''])"
proof -
  note own = instantiate_instance_lists [OF assms]
  have k: "keeps_lists h h1"
    using instantiate_keeps_lists [OF assms] .
  have l1: "module_loaded h1"
    using keeps_lists_loaded [OF assms(1) k] .
  have k2: "keeps_lists h1 (instantiate_all js h1)"
    using instantiate_all_keeps_lists [OF l1] .
  have l2: "module_loaded (instantiate_all js h1)"
    using keeps_lists_loaded [OF l1 k2] .
  have kept: "validators_of (instantiate_all js h1) self n = validators_of h1 self n" for n
    using kept_validators_of [OF k2] own by blast
  obtain self' h' where init:
    "RegistrationForm_init RegistrationForm fd PNone (instantiate_all js h1) = (Inr self', h')"
    using registration_init_succeeds [OF l2 disjI1 [OF refl] disjI1 [OF falsy_PNone]] by blast
  note i = registration_init [OF l2 disjI1 [OF refl] init]
  have s: "self' = fst (FlaskForm_init RegistrationForm fd (instantiate_all js h1))"
    using i(4) [of self'] by simp
  note c = i(5-8) [OF refl]
  note l = loaded_cells [OF registration_init_loaded [OF l2 disjI1 [OF refl] init]]
  have "validators_of h' self' ''username'' = Some []"
    and "validators_of h' self' ''given_name'' = Some []"
    and "validators_of h' self' ''middle_name'' = Some []"
    and "validators_of h' self' ''surname'' = Some []"
    and "validators_of h' self' ''email'' =
              Some [InputRequired ''You must provide an email address.'',
                    Email ''You must provide a valid email address.'']"
    and "validators_of h' self' ''password'' =
              Some [InputRequired ''You must supply a password.'']"
    unfolding s bind_RegistrationForm [OF l2]
    by (simp_all add: validators_of_def field_validators_def c l(1,2) falsy_not_marked)
  then show ?thesis
    using kept own k init by simp
qed

theorem validator_lists_kept_by_later_instances_witness:
  "\<exists>self h1. instantiate (New_RegistrationForm (\<lambda>n. []) PNone) module_heap = (Inr self, h1) \<and>
     validators_of
       (instantiate_all [New_RegistrationForm (\<lambda>n. []) all_required_config,
                         New_AcceptTermsRegistrationForm (\<lambda>n. []) username_enabled_only_config] h1)
       self ''username'' = Some [] \<and>
     validators_of h1 self ''username'' = Some []"
proof -
  obtain self h1 where init:
    "RegistrationForm_init RegistrationForm (\<lambda>n. []) PNone module_heap = (Inr self, h1)"
    using registration_init_succeeds [OF module_loaded_module_heap disjI1 [OF refl] disjI1 [OF falsy_PNone]]
    by blast
  then have i: "instantiate (New_RegistrationForm (\<lambda>n. []) PNone) module_heap = (Inr self, h1)"
    by simp
  have u: "validators_of h1 self ''username'' = Some []"
    using optional_validator_lists(1) [OF module_loaded_module_heap init]
    by (simp add: falsy_not_marked)
  have "validators_of
       (instantiate_all [New_RegistrationForm (\<lambda>n. []) all_required_config,
                         New_AcceptTermsRegistrationForm (\<lambda>n. []) username_enabled_only_config] h1)
       self ''username'' = validators_of h1 self ''username''"
    using validator_lists_kept_by_later_instances [OF module_loaded_module_heap i] by blast
  with i u show ?thesis
    by (simp del: instantiate_all.simps instantiate.simps)
qed

text \<open>
  Claim C8 as stated fails in one point: validator lists are shared between instances. The
  \<open>email\<close> fields of two registration forms hold the same list object, the one the class
  body built.
\<close>

theorem class_body_list_shared_counterexample:
  "map_option validators (map_of (projr (fst
       (instantiate (New_RegistrationForm (\<lambda>n. []) PNone) module_heap))) ''email'') = Some 0 \<and>
   map_option validators (map_of (projr (fst
       (instantiate (New_RegistrationForm (\<lambda>n. []) all_required_config)
          (snd (instantiate (New_RegistrationForm (\<lambda>n. []) PNone) module_heap))))) ''email'') = Some 0"
proof -
  obtain self h1 where init:
    "RegistrationForm_init RegistrationForm (\<lambda>n. []) PNone module_heap = (Inr self, h1)"
    using registration_init_succeeds [OF module_loaded_module_heap disjI1 [OF refl] disjI1 [OF falsy_PNone]]
    by blast
  have l1: "module_loaded h1"
    using registration_init_loaded [OF module_loaded_module_heap disjI1 [OF refl] init] .
  obtain self2 h2 where init2:
    "RegistrationForm_init RegistrationForm (\<lambda>n. []) all_required_config h1 = (Inr self2, h2)"
    using registration_init_succeeds [OF l1 disjI1 [OF refl] disjI2 [OF all_required_config_flags(2)]]
    by blast
  have s1: "self = fst (FlaskForm_init RegistrationForm (\<lambda>n. []) module_heap)"
    using registration_init(4) [OF module_loaded_module_heap disjI1 [OF refl] init, of self] by simp
  have s2: "self2 = fst (FlaskForm_init RegistrationForm (\<lambda>n. []) h1)"
    using registration_init(4) [OF l1 disjI1 [OF refl] init2, of self2] by simp
  have "map_option validators (map_of self ''email'') = Some 0"
    unfolding s1 bind_RegistrationForm [OF module_loaded_module_heap] by simp
  moreover have "map_option validators (map_of self2 ''email'') = Some 0"
    unfolding s2 bind_RegistrationForm [OF l1] by simp
  ultimately show ?thesis
    by (simp add: init init2)
qed

subsection \<open>A disabled field without its require flag\<close>

text \<open>
  Claim C9. For each of the four optional fields: when the configuration gives a false
  enable flag for the field and has no require key for it, and the flags of the other
  three fields can be read, the constructor returns an instance, and the validator list
  of the field is empty.
\<close>

theorem disabled_field_require_key_not_read:
  assumes "module_loaded h"
    and "(n, en, rq, msg) \<in> set optional_fields"
    and "getitem config en = Inr v" and "\<not> truthy v"
    and "getitem config rq = Inl (KeyError rq)"
    and "\<forall>(n', en', rq', msg') \<in> set optional_fields. n' \<noteq> n \<longrightarrow> flags_readable config en' rq'"
  shows "\<exists>self h'. RegistrationForm_init RegistrationForm fd config h = (Inr self, h') \<and>
           validators_of h' self n = Some []"
proof -
  have own: "flags_readable config en rq" "\<not> marked_required config en rq"
    using assms(3,4) by (simp_all add: flags_readable_def marked_required_def)
  have "all_flags_readable config"
    using assms(2,6) own(1)
    by (auto simp: optional_fields_def all_flags_readable_def)
  then obtain self h' where init: "RegistrationForm_init RegistrationForm fd config h = (Inr self, h')"
    using registration_init_succeeds [OF assms(1) disjI1 [OF refl] disjI2] by blast
  have "validators_of h' self n = Some []"
    using optional_validator_lists [OF assms(1) init] assms(2) own(2)
    by (auto simp: optional_fields_def appended_def)
  with init show ?thesis by blast
qed

theorem disabled_field_require_key_not_read_witness:
  "(''username'', ''STORMPATH_ENABLE_USERNAME'', ''STORMPATH_REQUIRE_USERNAME'',
      ''Username is required.'') \<in> set optional_fields \<and>
   getitem all_disabled_config ''STORMPATH_ENABLE_USERNAME'' = Inr (PBool False) \<and>
   getitem all_disabled_config ''STORMPATH_REQUIRE_USERNAME'' =
     Inl (KeyError ''STORMPATH_REQUIRE_USERNAME'') \<and>
   (\<exists>self h'. RegistrationForm_init RegistrationForm (\<lambda>n. []) all_disabled_config module_heap =
        (Inr self, h') \<and>
      validators_of h' self ''username'' = Some [])"
proof -
  have m: "(''username'', ''STORMPATH_ENABLE_USERNAME'', ''STORMPATH_REQUIRE_USERNAME'',
      ''Username is required.'') \<in> set optional_fields"
    by (simp add: optional_fields_def)
  have f: "\<not> truthy (PBool False)" by simp
  have others: "\<forall>(n', en', rq', msg') \<in> set optional_fields.
      n' \<noteq> ''username'' \<longrightarrow> flags_readable all_disabled_config en' rq'"
    by (simp add: optional_fields_def all_disabled_config_def flags_readable_def)
  show ?thesis
    using disabled_field_require_key_not_read [OF module_loaded_module_heap m
        all_disabled_config_flags(4) f all_disabled_config_flags(3) others, of "\<lambda>n. []"]
      m all_disabled_config_flags(3,4)
    by simp
qed

subsection \<open>A configuration that is false\<close>

text \<open>
  Claim C10. A configuration that is given but false (an empty mapping, \<open>None\<close>, \<open>False\<close>)
  gives what no configuration gives: the constructor subscripts nothing, raises nothing and
  appends nothing, and only email and password are checked.
\<close>

theorem falsy_config_as_absent:
  assumes "\<not> truthy config" and "module_loaded h"
  shows "RegistrationForm_init RegistrationForm fd config h =
           RegistrationForm_init RegistrationForm fd PNone h \<and>
         (\<exists>self h'. RegistrationForm_init RegistrationForm fd config h = (Inr self, h') \<and>
            validators_of h' self ''username'' = Some [] \<and>
            validators_of h' self ''given_name'' = Some [] \<and>
            validators_of h' self ''middle_name'' = Some [] \<and>
            validators_of h' self ''surname'' = Some [] \<and>
            validate is_email h' self =
              (present fd ''email'' \<and> is_email (hd (fd ''email'')) \<and> present fd ''password''))"
proof -
  have eq: "RegistrationForm_init RegistrationForm fd config h =
           RegistrationForm_init RegistrationForm fd PNone h"
    using assms(1) by (simp add: RegistrationForm_init_def)
  obtain self h' where init: "RegistrationForm_init RegistrationForm fd config h = (Inr self, h')"
    using registration_init_succeeds [OF assms(2) disjI1 [OF refl] disjI1 [OF assms(1)]] by blast
  note i = registration_init [OF assms(2) disjI1 [OF refl] init]
  have self: "self = fst (FlaskForm_init RegistrationForm fd h)"
    using i(4) [of self] by simp
  note c = i(5-8) [OF refl]
  have "validators_of h' self ''username'' = Some []"
    and "validators_of h' self ''given_name'' = Some []"
    and "validators_of h' self ''middle_name'' = Some []"
    and "validators_of h' self ''surname'' = Some []"
    unfolding self bind_RegistrationForm [OF assms(2)]
    by (simp_all add: validators_of_def field_validators_def c falsy_not_marked [OF assms(1)])
  moreover have "validate is_email h' self =
       (present fd ''email'' \<and> is_email (hd (fd ''email'')) \<and> present fd ''password'')"
    using registration_validate [OF assms(2) init, of is_email]
    by (simp add: falsy_not_required [OF assms(1)])
  ultimately show ?thesis using init eq by simp
qed

theorem falsy_config_as_absent_witness:
  "\<not> truthy (PDict []) \<and> \<not> truthy (PBool False) \<and> \<not> truthy PNone \<and>
   RegistrationForm_init RegistrationForm (\<lambda>n. []) (PDict []) module_heap =
     RegistrationForm_init RegistrationForm (\<lambda>n. []) PNone module_heap \<and>
   \<not> isl (fst (RegistrationForm_init RegistrationForm (\<lambda>n. []) (PDict []) module_heap))"
proof -
  have f: "\<not> truthy (PDict [])" by simp
  from falsy_config_as_absent [OF f module_loaded_module_heap, of "\<lambda>n. []" sample_is_email]
  obtain self h' where
    eq: "RegistrationForm_init RegistrationForm (\<lambda>n. []) (PDict []) module_heap =
           RegistrationForm_init RegistrationForm (\<lambda>n. []) PNone module_heap"
    and a: "RegistrationForm_init RegistrationForm (\<lambda>n. []) (PDict []) module_heap = (Inr self, h')"
    by blast
  have b: "RegistrationForm_init RegistrationForm (\<lambda>n. []) PNone module_heap = (Inr self, h')"
    using eq a by simp
  show ?thesis
    unfolding a b by simp
qed

end
